theory Spec2Isabelle
  imports Main "HOL-Library.Signed_Division"
begin

section \<open>Domain records (pkg/types)\<close>

text \<open>
  Go strings are byte sequences and are modelled as \<open>string\<close>; Go \<open>int\<close> values
  (list lengths, terminal dimensions, indices) are modelled as \<open>int\<close>; \<open>time.Time\<close>
  values are kept as an integer timestamp, since no function below inspects them.
\<close>

record Snapshot =
  snap_ID :: string
  snap_Time :: int
  snap_Hostname :: string
  snap_Username :: string
  snap_Paths :: "string list"
  snap_Tags :: "string list"
  snap_ShortID :: string

record FileNode =
  node_MessageType :: string
  node_Name :: string
  node_Type :: string
  node_Path :: string
  node_Size :: int
  node_Selected :: bool

record Repository =
  repo_Name :: string
  repo_Path :: string
  repo_LastBackup :: int
  repo_Size :: int
  repo_TotalFiles :: int
  repo_SnapshotCount :: int
  repo_Status :: string

record RepositoryConfig =
  cfg_Name :: string
  cfg_Path :: string
  cfg_PasswordCommand :: string
  cfg_PasswordFile :: string
  cfg_Password :: string

record ResticConfig =
  Repositories :: "RepositoryConfig list"

text \<open>The progress and summary records keep their integer and string fields.\<close>

record BackupProgress =
  bp_MessageType :: string
  bp_TotalFiles :: int
  bp_FilesDone :: int
  bp_TotalBytes :: int
  bp_BytesDone :: int
  bp_CurrentFiles :: "string list"
  bp_SecondsElapsed :: int
  bp_SecondsRemaining :: int

record BackupSummary =
  bs_MessageType :: string
  bs_FilesNew :: int
  bs_FilesChanged :: int
  bs_FilesUnmodified :: int
  bs_TotalFilesProcessed :: int
  bs_TotalBytesProcessed :: int
  bs_SnapshotID :: string

record BackupOptions =
  bo_Paths :: "string list"
  bo_Tags :: "string list"
  bo_Exclude :: "string list"

record RestoreOptions =
  ro_SnapshotID :: string
  ro_Target :: string
  ro_Include :: "string list"

record RestoreProgress =
  rp_MessageType :: string
  rp_TotalFiles :: int
  rp_FilesRestored :: int
  rp_TotalBytes :: int
  rp_BytesRestored :: int
  rp_SecondsElapsed :: int
  rp_SecondsRemaining :: int

record RestoreSummary =
  rs_MessageType :: string
  rs_TotalFiles :: int
  rs_TotalBytes :: int
  rs_SecondsElapsed :: int

section \<open>Text inputs (the bubbles library)\<close>

text \<open>
  A text input of the terminal library, as far as the program reads it: the value typed
  so far and whether the input has the focus. How a key changes an input is the
  library's business; it is a parameter of the functions below, together with
  \<open>path.Dir\<close> of the Go library.
\<close>

record textinput =
  ti_value :: string
  ti_focus :: bool

definition textinput_New :: textinput where
  "textinput_New = \<lparr>ti_value = [], ti_focus = False\<rparr>"

definition Focus :: "textinput \<Rightarrow> textinput" where
  "Focus t = t\<lparr>ti_focus := True\<rparr>"

definition Blur :: "textinput \<Rightarrow> textinput" where
  "Blur t = t\<lparr>ti_focus := False\<rparr>"

definition SetValue :: "string \<Rightarrow> textinput \<Rightarrow> textinput" where
  "SetValue s t = t\<lparr>ti_value := s\<rparr>"

record library =
  textinput_Update :: "string \<Rightarrow> textinput \<Rightarrow> textinput"
  path_Dir :: "string \<Rightarrow> string"

section \<open>Typed-word confirmation (pkg/ui/confirmation_dialog.go)\<close>

record ConfirmationDialog =
  cd_title :: string
  cd_message :: string
  cd_confirmationWord :: string
  cd_input :: textinput
  cd_width :: int
  cd_height :: int

definition NewConfirmationDialog :: "string \<Rightarrow> string \<Rightarrow> string \<Rightarrow> ConfirmationDialog" where
  "NewConfirmationDialog title message confirmationWord =
     \<lparr>cd_title = title, cd_message = message, cd_confirmationWord = confirmationWord,
      cd_input = Focus textinput_New, cd_width = 0, cd_height = 0\<rparr>"

definition ConfirmationDialog_Update ::
  "library \<Rightarrow> string \<Rightarrow> ConfirmationDialog \<Rightarrow> ConfirmationDialog" where
  "ConfirmationDialog_Update lib key cd = cd\<lparr>cd_input := textinput_Update lib key (cd_input cd)\<rparr>"

definition IsConfirmed :: "ConfirmationDialog \<Rightarrow> bool" where
  "IsConfirmed cd = (ti_value (cd_input cd) = cd_confirmationWord cd)"


definition ConfirmationDialog_SetSize :: "int \<Rightarrow> int \<Rightarrow> ConfirmationDialog \<Rightarrow> ConfirmationDialog" where
  "ConfirmationDialog_SetSize w h cd = cd\<lparr>cd_width := w, cd_height := h\<rparr>"


section \<open>Snapshot panel (pkg/ui/snapshot_panel.go)\<close>

record SnapshotPanel =
  snapshots :: "Snapshot list"
  filteredSnapshots :: "Snapshot list"
  selected :: int
  width :: int
  height :: int
  scrollOffset :: int
  filterActive :: bool
  filterText :: string
  filterTag :: string
  filterHost :: string

definition NewSnapshotPanel :: SnapshotPanel where
  "NewSnapshotPanel =
     \<lparr>snapshots = [], filteredSnapshots = [], selected = 0, width = 0, height = 0,
      scrollOffset = 0, filterActive = False, filterText = [], filterTag = [],
      filterHost = []\<rparr>"

definition SnapshotPanel_SetSize :: "int \<Rightarrow> int \<Rightarrow> SnapshotPanel \<Rightarrow> SnapshotPanel" where
  "SnapshotPanel_SetSize w h p = p\<lparr>width := w, height := h\<rparr>"

subsection \<open>Selection moves and the scroll offset\<close>

definition SnapshotPanel_MoveUp :: "SnapshotPanel \<Rightarrow> SnapshotPanel" where
  "SnapshotPanel_MoveUp p =
     (if selected p > 0 then
        (let p1 = p\<lparr>selected := selected p - 1\<rparr>
         in if selected p1 < scrollOffset p1 then p1\<lparr>scrollOffset := selected p1\<rparr> else p1)
      else p)"

definition SnapshotPanel_MoveDown :: "SnapshotPanel \<Rightarrow> SnapshotPanel" where
  "SnapshotPanel_MoveDown p =
     (let listLen = int (length (filteredSnapshots p)) in
      if selected p < listLen - 1 then
        (let p1 = p\<lparr>selected := selected p + 1\<rparr>;
             visibleLines0 = height p1 - 6;
             visibleLines = (if visibleLines0 < 1 then 1 else visibleLines0)
         in if selected p1 \<ge> scrollOffset p1 + visibleLines
            then p1\<lparr>scrollOffset := selected p1 - visibleLines + 1\<rparr>
            else p1)
      else p)"

datatype move = Up | Down

fun step_move :: "move \<Rightarrow> SnapshotPanel \<Rightarrow> SnapshotPanel" where
  "step_move Up p = SnapshotPanel_MoveUp p"
| "step_move Down p = SnapshotPanel_MoveDown p"

fun run_moves :: "move list \<Rightarrow> SnapshotPanel \<Rightarrow> SnapshotPanel" where
  "run_moves [] p = p"
| "run_moves (m # ms) p = run_moves ms (step_move m p)"

text \<open>
  The number of rows the panel shows, as \<open>MoveDown\<close> and \<open>Render\<close> both compute it:
  the height less six rows of decoration, and never less than one.
\<close>

definition visibleCapacity :: "SnapshotPanel \<Rightarrow> int" where
  "visibleCapacity p = (if height p - 6 < 1 then 1 else height p - 6)"

definition in_window :: "SnapshotPanel \<Rightarrow> bool" where
  "in_window p = (scrollOffset p \<le> selected p \<and> selected p < scrollOffset p + visibleCapacity p)"

subsection \<open>Filtering\<close>

text \<open>
  \<open>strings.ToLower\<close> on the bytes of a string: the ASCII capitals go to their small
  letters and every other byte stays (Go lowers letters outside ASCII by the Unicode
  tables as well; identifiers, host names, paths and tags are taken byte by byte here).
  \<open>strings.Contains s substr\<close> holds when \<open>substr\<close> occurs in \<open>s\<close> as a contiguous run.
\<close>

definition lower_byte :: "char \<Rightarrow> char" where
  "lower_byte c =
     (if (65::nat) \<le> of_char c \<and> of_char c \<le> (90::nat)
      then char_of (of_char c + (32::nat)) else c)"

definition ToLower :: "string \<Rightarrow> string" where
  "ToLower s = map lower_byte s"

fun HasPrefix :: "string \<Rightarrow> string \<Rightarrow> bool" where
  "HasPrefix s [] = True"
| "HasPrefix [] (c # cs) = False"
| "HasPrefix (d # ds) (c # cs) = (d = c \<and> HasPrefix ds cs)"

fun Contains :: "string \<Rightarrow> string \<Rightarrow> bool" where
  "Contains [] substr = (substr = [])"
| "Contains (c # cs) substr = (HasPrefix (c # cs) substr \<or> Contains cs substr)"

text \<open>
  The loop over the tags for the tag filter: \<open>found\<close> starts false and the loop breaks at
  the first tag that contains the filter.
\<close>

fun tag_found :: "string \<Rightarrow> string list \<Rightarrow> bool" where
  "tag_found ftag [] = False"
| "tag_found ftag (tag # tags) =
     (if Contains (ToLower tag) (ToLower ftag) then True else tag_found ftag tags)"

text \<open>
  The loops over the paths and over the tags for the text filter: each returns true from
  \<open>matchesFilter\<close> at the first element that contains the lowered filter text.
\<close>

fun some_contains :: "string \<Rightarrow> string list \<Rightarrow> bool" where
  "some_contains filterLower [] = False"
| "some_contains filterLower (x # xs) =
     (if Contains (ToLower x) filterLower then True else some_contains filterLower xs)"

definition matchesFilter :: "SnapshotPanel \<Rightarrow> Snapshot \<Rightarrow> bool" where
  "matchesFilter p snap =
     (if filterTag p \<noteq> [] \<and> \<not> tag_found (filterTag p) (snap_Tags snap) then False
      else if filterHost p \<noteq> []
              \<and> \<not> Contains (ToLower (snap_Hostname snap)) (ToLower (filterHost p)) then False
      else if filterText p \<noteq> [] then
        (let filterLower = ToLower (filterText p) in
         if Contains (ToLower (snap_ID snap)) filterLower then True
         else if Contains (ToLower (snap_ShortID snap)) filterLower then True
         else if some_contains filterLower (snap_Paths snap) then True
         else if some_contains filterLower (snap_Tags snap) then True
         else False)
      else True)"

text \<open>The loop of \<open>ApplyFilter\<close>: matching snapshots are appended to the result in turn.\<close>

fun filter_loop :: "SnapshotPanel \<Rightarrow> Snapshot list \<Rightarrow> Snapshot list \<Rightarrow> Snapshot list" where
  "filter_loop p [] acc = acc"
| "filter_loop p (snap # rest) acc =
     filter_loop p rest (if matchesFilter p snap then acc @ [snap] else acc)"

definition ApplyFilter :: "SnapshotPanel \<Rightarrow> SnapshotPanel" where
  "ApplyFilter p =
     (if \<not> filterActive p \<or> (filterText p = [] \<and> filterTag p = [] \<and> filterHost p = [])
      then p\<lparr>filteredSnapshots := snapshots p, scrollOffset := 0\<rparr>
      else
        (let p1 = p\<lparr>filteredSnapshots := filter_loop p (snapshots p) []\<rparr>;
             n = int (length (filteredSnapshots p1))
         in if selected p1 \<ge> n \<and> n > 0 then p1\<lparr>selected := 0, scrollOffset := 0\<rparr> else p1))"

definition SetSnapshots :: "Snapshot list \<Rightarrow> SnapshotPanel \<Rightarrow> SnapshotPanel" where
  "SetSnapshots snaps p =
     (let p1 = ApplyFilter (p\<lparr>snapshots := snaps\<rparr>);
          listLen = int (length (filteredSnapshots p1));
          p2 = (if selected p1 \<ge> listLen \<and> listLen > 0
                then p1\<lparr>selected := listLen - 1\<rparr> else p1)
      in p2\<lparr>scrollOffset := 0\<rparr>)"

definition SetFilter :: "string \<Rightarrow> SnapshotPanel \<Rightarrow> SnapshotPanel" where
  "SetFilter text p = ApplyFilter (p\<lparr>filterText := text, filterActive := True\<rparr>)"

definition SetTagFilter :: "string \<Rightarrow> SnapshotPanel \<Rightarrow> SnapshotPanel" where
  "SetTagFilter tag p = ApplyFilter (p\<lparr>filterTag := tag, filterActive := True\<rparr>)"

definition SetHostFilter :: "string \<Rightarrow> SnapshotPanel \<Rightarrow> SnapshotPanel" where
  "SetHostFilter host p = ApplyFilter (p\<lparr>filterHost := host, filterActive := True\<rparr>)"

definition ClearFilter :: "SnapshotPanel \<Rightarrow> SnapshotPanel" where
  "ClearFilter p =
     ApplyFilter (p\<lparr>filterActive := False, filterText := [], filterTag := [], filterHost := []\<rparr>)"

definition IsFilterActive :: "SnapshotPanel \<Rightarrow> bool" where
  "IsFilterActive p =
     (filterActive p \<and> (filterText p \<noteq> [] \<or> filterTag p \<noteq> [] \<or> filterHost p \<noteq> []))"

definition SnapshotPanel_GetSelected :: "SnapshotPanel \<Rightarrow> Snapshot option" where
  "SnapshotPanel_GetSelected p =
     (let listLen = int (length (filteredSnapshots p)) in
      if selected p \<ge> 0 \<and> selected p < listLen
      then Some (filteredSnapshots p ! nat (selected p)) else None)"

subsection \<open>The filter as the specification words it\<close>






section \<open>File browser paging (FileBrowser, in pkg/ui/operations_panel.go)\<close>

text \<open>
  Go's integer division truncates towards zero (\<open>sdiv\<close>) and panics on a zero divisor;
  a slice expression panics when its bounds are out of order or out of range. A panic is
  the value \<open>None\<close>.
\<close>

record FileBrowser =
  fb_snapshot :: "Snapshot option"
  fb_currentPath :: string
  fb_files :: "FileNode list"
  fb_selected :: int
  fb_width :: int
  fb_height :: int
  fb_multiSelect :: bool
  fb_pageSize :: int
  fb_currentPage :: int

definition NewFileBrowser :: "Snapshot option \<Rightarrow> FileBrowser" where
  "NewFileBrowser snapshot =
     \<lparr>fb_snapshot = snapshot, fb_currentPath = ''/'', fb_files = [], fb_selected = 0,
      fb_width = 0, fb_height = 0, fb_multiSelect = True, fb_pageSize = 50,
      fb_currentPage = 0\<rparr>"

definition go_div :: "int \<Rightarrow> int \<Rightarrow> int option" where
  "go_div a b = (if b = 0 then None else Some (a sdiv b))"

definition go_slice :: "'a list \<Rightarrow> int \<Rightarrow> int \<Rightarrow> 'a list option" where
  "go_slice xs lo hi =
     (if 0 \<le> lo \<and> lo \<le> hi \<and> hi \<le> int (length xs)
      then Some (take (nat (hi - lo)) (drop (nat lo) xs)) else None)"

definition getTotalPages :: "FileBrowser \<Rightarrow> int option" where
  "getTotalPages fb =
     (if length (fb_files fb) = 0 then Some 1
      else go_div (int (length (fb_files fb)) + fb_pageSize fb - 1) (fb_pageSize fb))"

definition getFilesOnCurrentPage :: "FileBrowser \<Rightarrow> FileNode list option" where
  "getFilesOnCurrentPage fb =
     (let start = fb_currentPage fb * fb_pageSize fb;
          end0 = start + fb_pageSize fb;
          end1 = (if end0 > int (length (fb_files fb)) then int (length (fb_files fb)) else end0)
      in if start \<ge> int (length (fb_files fb)) then Some []
         else go_slice (fb_files fb) start end1)"

definition FileBrowser_SetFiles :: "FileNode list \<Rightarrow> FileBrowser \<Rightarrow> FileBrowser option" where
  "FileBrowser_SetFiles files fb =
     (let fb1 = fb\<lparr>fb_files := files, fb_currentPage := 0\<rparr> in
      case getTotalPages fb1 of
        None \<Rightarrow> None
      | Some totalPages \<Rightarrow>
          (let fb2 = (if fb_currentPage fb1 \<ge> totalPages \<and> totalPages > 0
                      then fb1\<lparr>fb_currentPage := totalPages - 1\<rparr> else fb1);
               fb3 = (if fb_currentPage fb2 < 0 then fb2\<lparr>fb_currentPage := 0\<rparr> else fb2)
           in case getFilesOnCurrentPage fb3 of
                None \<Rightarrow> None
              | Some filesOnPage \<Rightarrow>
                  (let n = int (length filesOnPage);
                       fb4 = (if fb_selected fb3 \<ge> n \<and> n > 0
                              then fb3\<lparr>fb_selected := n - 1\<rparr> else fb3);
                       fb5 = (if fb_selected fb4 < 0 then fb4\<lparr>fb_selected := 0\<rparr> else fb4)
                   in Some fb5)))"

definition FileBrowser_SetSize :: "int \<Rightarrow> int \<Rightarrow> FileBrowser \<Rightarrow> FileBrowser" where
  "FileBrowser_SetSize w h fb = fb\<lparr>fb_width := w, fb_height := h\<rparr>"

definition NextPage :: "FileBrowser \<Rightarrow> FileBrowser option" where
  "NextPage fb =
     (case getTotalPages fb of
        None \<Rightarrow> None
      | Some totalPages \<Rightarrow>
          Some (if fb_currentPage fb < totalPages - 1
                then fb\<lparr>fb_currentPage := fb_currentPage fb + 1, fb_selected := 0\<rparr>
                else fb))"

definition PrevPage :: "FileBrowser \<Rightarrow> FileBrowser" where
  "PrevPage fb =
     (if fb_currentPage fb > 0
      then fb\<lparr>fb_currentPage := fb_currentPage fb - 1, fb_selected := 0\<rparr>
      else fb)"

definition FileBrowser_MoveUp :: "FileBrowser \<Rightarrow> FileBrowser" where
  "FileBrowser_MoveUp fb =
     (if fb_selected fb > 0 then fb\<lparr>fb_selected := fb_selected fb - 1\<rparr> else fb)"

definition FileBrowser_MoveDown :: "FileBrowser \<Rightarrow> FileBrowser" where
  "FileBrowser_MoveDown fb =
     (if fb_selected fb < int (length (fb_files fb)) - 1
      then fb\<lparr>fb_selected := fb_selected fb + 1\<rparr> else fb)"

definition FileBrowser_GetSelected :: "FileBrowser \<Rightarrow> FileNode option" where
  "FileBrowser_GetSelected fb =
     (if fb_selected fb \<ge> 0 \<and> fb_selected fb < int (length (fb_files fb))
      then Some (fb_files fb ! nat (fb_selected fb)) else None)"

definition ToggleSelection :: "FileBrowser \<Rightarrow> FileBrowser" where
  "ToggleSelection fb =
     (if fb_selected fb \<ge> 0 \<and> fb_selected fb < int (length (fb_files fb))
      then (let i = nat (fb_selected fb); f = fb_files fb ! i
            in fb\<lparr>fb_files := (fb_files fb)[i := f\<lparr>node_Selected := \<not> node_Selected f\<rparr>]\<rparr>)
      else fb)"

definition GetSelectedFiles :: "FileBrowser \<Rightarrow> FileNode list" where
  "GetSelectedFiles fb = filter node_Selected (fb_files fb)"

definition ClearSelection :: "FileBrowser \<Rightarrow> FileBrowser" where
  "ClearSelection fb = fb\<lparr>fb_files := map (\<lambda>f. f\<lparr>node_Selected := False\<rparr>) (fb_files fb)\<rparr>"

definition SetCurrentPath :: "string \<Rightarrow> FileBrowser \<Rightarrow> FileBrowser" where
  "SetCurrentPath path fb = fb\<lparr>fb_currentPath := path\<rparr>"

definition EnterDirectory :: "FileBrowser \<Rightarrow> FileBrowser \<times> string \<times> bool" where
  "EnterDirectory fb =
     (case FileBrowser_GetSelected fb of
        Some sel \<Rightarrow>
          (if node_Type sel = ''dir''
           then (fb\<lparr>fb_currentPath := node_Path sel\<rparr>, node_Path sel, True)
           else (fb, fb_currentPath fb, False))
      | None \<Rightarrow> (fb, fb_currentPath fb, False))"

text \<open>
  The operations a caller can apply to a file browser. \<open>GoUp\<close> only replaces the current
  path by its parent directory and is covered by \<open>OpSetCurrentPath\<close>.
\<close>

datatype fb_op =
    OpSetFiles "FileNode list"
  | OpSetSize int int
  | OpNextPage
  | OpPrevPage
  | OpMoveUp
  | OpMoveDown
  | OpToggleSelection
  | OpClearSelection
  | OpSetCurrentPath string
  | OpEnterDirectory

fun fb_step :: "fb_op \<Rightarrow> FileBrowser \<Rightarrow> FileBrowser option" where
  "fb_step (OpSetFiles files) fb = FileBrowser_SetFiles files fb"
| "fb_step (OpSetSize w h) fb = Some (FileBrowser_SetSize w h fb)"
| "fb_step OpNextPage fb = NextPage fb"
| "fb_step OpPrevPage fb = Some (PrevPage fb)"
| "fb_step OpMoveUp fb = Some (FileBrowser_MoveUp fb)"
| "fb_step OpMoveDown fb = Some (FileBrowser_MoveDown fb)"
| "fb_step OpToggleSelection fb = Some (ToggleSelection fb)"
| "fb_step OpClearSelection fb = Some (ClearSelection fb)"
| "fb_step (OpSetCurrentPath path) fb = Some (SetCurrentPath path fb)"
| "fb_step OpEnterDirectory fb = Some (fst (EnterDirectory fb))"

fun fb_run :: "fb_op list \<Rightarrow> FileBrowser \<Rightarrow> FileBrowser option" where
  "fb_run [] fb = Some fb"
| "fb_run (x # xs) fb = (case fb_step x fb of None \<Rightarrow> None | Some fb' \<Rightarrow> fb_run xs fb')"

text \<open>The paging invariant: fifty files to a page and a page index inside the page range.\<close>

definition paging_ok :: "FileBrowser \<Rightarrow> bool" where
  "paging_ok fb =
     (fb_pageSize fb = 50 \<and> 0 \<le> fb_currentPage fb
      \<and> (case getTotalPages fb of None \<Rightarrow> False | Some t \<Rightarrow> fb_currentPage fb < t))"


text \<open>The page count for fifty files to a page, as a closed formula.\<close>

definition pages :: "FileBrowser \<Rightarrow> int" where
  "pages fb = (if fb_files fb = [] then 1 else (int (length (fb_files fb)) + 49) div 50)"

section \<open>Configuration loading and validation (pkg/config/config.go)\<close>

text \<open>
  A parsed YAML document, as \<open>yaml.Unmarshal\<close> hands it over in an untyped value: scalars,
  sequences and mappings with their keys in order.
\<close>

datatype yaml =
    YNull
  | YString string
  | YInt int
  | YBool bool
  | YList "yaml list"
  | YMap "(yaml \<times> yaml) list"

















section \<open>The restic client (pkg/restic/client.go)\<close>



subsection \<open>Streaming sessions\<close>

text \<open>
  A message on an update channel has a progress, a summary or an error; the producers
  below set exactly one of them.
\<close>

record ('p, 's) Message =
  Progress :: "'p option"
  Summary :: "'s option"
  Error :: "string option"

type_synonym BackupMessage = "(BackupProgress, BackupSummary) Message"
type_synonym RestoreMessage = "(RestoreProgress, RestoreSummary) Message"









subsection \<open>Terminal events of a session\<close>

definition is_terminal :: "('p, 's) Message \<Rightarrow> bool" where
  "is_terminal m = (Summary m \<noteq> None \<or> Error m \<noteq> None)"






section \<open>Operations log (pkg/ui/operations_panel.go)\<close>

text \<open>
  A log entry keeps its level and its message as the format string with the arguments
  that \<open>fmt.Sprintf\<close> would fill in; the timestamp is left out, and so are the glyphs
  outside ASCII that decorate some messages.
\<close>

datatype fmt_arg = ArgInt int | ArgStr string

record LogEntry =
  log_Level :: string
  log_Message :: string
  log_Args :: "fmt_arg list"

record OperationsPanel =
  logs :: "LogEntry list"
  ops_width :: int
  ops_height :: int
  ops_backupProgress :: "BackupProgress option"
  ops_backupInProgress :: bool

definition NewOperationsPanel :: OperationsPanel where
  "NewOperationsPanel =
     \<lparr>logs = [], ops_width = 0, ops_height = 0, ops_backupProgress = None,
      ops_backupInProgress = False\<rparr>"

definition AddLog :: "string \<Rightarrow> string \<Rightarrow> fmt_arg list \<Rightarrow> OperationsPanel \<Rightarrow> OperationsPanel" where
  "AddLog level message args p =
     (let logs1 = logs p @ [\<lparr>log_Level = level, log_Message = message, log_Args = args\<rparr>]
      in p\<lparr>logs := (if length logs1 > 100 then drop (length logs1 - 100) logs1 else logs1)\<rparr>)"

definition Info :: "string \<Rightarrow> fmt_arg list \<Rightarrow> OperationsPanel \<Rightarrow> OperationsPanel" where
  "Info message args p = AddLog ''info'' message args p"

definition Dimmed :: "string \<Rightarrow> fmt_arg list \<Rightarrow> OperationsPanel \<Rightarrow> OperationsPanel" where
  "Dimmed message args p = AddLog ''dimmed'' message args p"

definition Success :: "string \<Rightarrow> fmt_arg list \<Rightarrow> OperationsPanel \<Rightarrow> OperationsPanel" where
  "Success message args p = AddLog ''success'' message args p"

definition Warning :: "string \<Rightarrow> fmt_arg list \<Rightarrow> OperationsPanel \<Rightarrow> OperationsPanel" where
  "Warning message args p = AddLog ''warning'' message args p"

definition LogError :: "string \<Rightarrow> fmt_arg list \<Rightarrow> OperationsPanel \<Rightarrow> OperationsPanel" where
  "LogError message args p = AddLog ''error'' message args p"

definition SetBackupProgress :: "BackupProgress option \<Rightarrow> OperationsPanel \<Rightarrow> OperationsPanel" where
  "SetBackupProgress progress p = p\<lparr>ops_backupProgress := progress, ops_backupInProgress := True\<rparr>"

definition ClearBackupProgress :: "OperationsPanel \<Rightarrow> OperationsPanel" where
  "ClearBackupProgress p = p\<lparr>ops_backupProgress := None, ops_backupInProgress := False\<rparr>"

section \<open>Repository panel (pkg/ui/repository_panel.go)\<close>

record RepositoryPanel =
  rp_repositories :: "Repository list"
  rp_selected :: int
  rp_width :: int
  rp_height :: int
  rp_scrollOffset :: int

definition NewRepositoryPanel :: RepositoryPanel where
  "NewRepositoryPanel =
     \<lparr>rp_repositories = [], rp_selected = 0, rp_width = 0, rp_height = 0, rp_scrollOffset = 0\<rparr>"

definition SetRepositories :: "Repository list \<Rightarrow> RepositoryPanel \<Rightarrow> RepositoryPanel" where
  "SetRepositories repos p =
     (let p1 = p\<lparr>rp_repositories := repos\<rparr>;
          p2 = (if rp_selected p1 \<ge> int (length repos) \<and> int (length repos) > 0
                then p1\<lparr>rp_selected := int (length repos) - 1\<rparr> else p1)
      in p2\<lparr>rp_scrollOffset := 0\<rparr>)"

definition RepositoryPanel_MoveUp :: "RepositoryPanel \<Rightarrow> RepositoryPanel" where
  "RepositoryPanel_MoveUp p =
     (if rp_selected p > 0 then
        (let p1 = p\<lparr>rp_selected := rp_selected p - 1\<rparr>
         in if rp_selected p1 < rp_scrollOffset p1
            then p1\<lparr>rp_scrollOffset := rp_selected p1\<rparr> else p1)
      else p)"

definition RepositoryPanel_MoveDown :: "RepositoryPanel \<Rightarrow> RepositoryPanel" where
  "RepositoryPanel_MoveDown p =
     (if rp_selected p < int (length (rp_repositories p)) - 1 then
        (let p1 = p\<lparr>rp_selected := rp_selected p + 1\<rparr>;
             visibleRepos0 = (rp_height p1 - 6) sdiv 3;
             visibleRepos = (if visibleRepos0 < 1 then 1 else visibleRepos0)
         in if rp_selected p1 \<ge> rp_scrollOffset p1 + visibleRepos
            then p1\<lparr>rp_scrollOffset := rp_selected p1 - visibleRepos + 1\<rparr>
            else p1)
      else p)"

definition RepositoryPanel_GetSelected :: "RepositoryPanel \<Rightarrow> Repository option" where
  "RepositoryPanel_GetSelected p =
     (if rp_selected p \<ge> 0 \<and> rp_selected p < int (length (rp_repositories p))
      then Some (rp_repositories p ! nat (rp_selected p)) else None)"

section \<open>Metrics panel and forget preview (pkg/ui)\<close>

record RepoMetricsPanel =
  mp_width :: int
  mp_height :: int
  mp_repository :: "Repository option"
  mp_active :: bool

definition NewRepoMetricsPanel :: RepoMetricsPanel where
  "NewRepoMetricsPanel = \<lparr>mp_width = 80, mp_height = 10, mp_repository = None, mp_active = False\<rparr>"

definition SetRepository :: "Repository option \<Rightarrow> RepoMetricsPanel \<Rightarrow> RepoMetricsPanel" where
  "SetRepository repo p = p\<lparr>mp_repository := repo\<rparr>"

record ForgetPolicy =
  fp_KeepLast :: int
  fp_KeepHourly :: int
  fp_KeepDaily :: int
  fp_KeepWeekly :: int
  fp_KeepMonthly :: int
  fp_KeepYearly :: int
  fp_KeepWithin :: string
  fp_KeepTags :: "string list"
  fp_Host :: string
  fp_Paths :: "string list"
  fp_Tags :: "string list"

record ForgetResult =
  fr_SnapshotsToKeep :: "Snapshot list"
  fr_SnapshotsToRemove :: "Snapshot list"
  fr_Host :: string
  fr_Paths :: "string list"
  fr_Tags :: "string list"

record ForgetPreview =
  pv_results :: "ForgetResult list"
  pv_policy :: ForgetPolicy
  pv_width :: int
  pv_height :: int
  pv_scrollOffset :: int

definition NewForgetPreview :: "ForgetResult list \<Rightarrow> ForgetPolicy \<Rightarrow> ForgetPreview" where
  "NewForgetPreview results policy =
     \<lparr>pv_results = results, pv_policy = policy, pv_width = 0, pv_height = 0,
      pv_scrollOffset = 0\<rparr>"

definition ForgetPreview_SetSize :: "int \<Rightarrow> int \<Rightarrow> ForgetPreview \<Rightarrow> ForgetPreview" where
  "ForgetPreview_SetSize w h fp = fp\<lparr>pv_width := w, pv_height := h\<rparr>"

fun total_to_remove :: "ForgetResult list \<Rightarrow> int \<Rightarrow> int" where
  "total_to_remove [] n = n"
| "total_to_remove (result # rest) n =
     total_to_remove rest (n + int (length (fr_SnapshotsToRemove result)))"

definition GetTotalToRemove :: "ForgetPreview \<Rightarrow> int" where
  "GetTotalToRemove fp = total_to_remove (pv_results fp) 0"

section \<open>Forms (pkg/ui)\<close>

text \<open>
  \<open>strings.Split s ","\<close>, \<open>strings.TrimSpace\<close> (on the ASCII white space) and
  \<open>strings.Join\<close> with a separator.
\<close>

fun split_comma :: "string \<Rightarrow> string list" where
  "split_comma [] = [[]]"
| "split_comma (c # cs) =
     (if c = CHR '','' then [] # split_comma cs
      else (case split_comma cs of
              [] \<Rightarrow> [[c]]
            | x # xs \<Rightarrow> (c # x) # xs))"

definition is_space :: "char \<Rightarrow> bool" where
  "is_space c = (c \<in> set [CHR '' '', CHR 0x09, CHR 0x0A, CHR 0x0B, CHR 0x0C, CHR 0x0D])"

definition TrimSpace :: "string \<Rightarrow> string" where
  "TrimSpace s = rev (dropWhile is_space (rev (dropWhile is_space s)))"

fun Join :: "string list \<Rightarrow> string \<Rightarrow> string" where
  "Join [] sep = []"
| "Join [x] sep = x"
| "Join (x # y # ys) sep = x @ sep @ Join (y # ys) sep"

text \<open>
  The loop that the three getters of the backup form and \<open>GetInclude\<close> of the restore
  form share: the pieces between commas, trimmed, without the empty ones.
\<close>

definition trimmed_parts :: "string \<Rightarrow> string list" where
  "trimmed_parts v =
     (if v = [] then [] else filter (\<lambda>t. t \<noteq> []) (map TrimSpace (split_comma v)))"

subsection \<open>Backup form\<close>

record BackupForm =
  bf_pathsInput :: textinput
  bf_tagsInput :: textinput
  bf_excludeInput :: textinput
  bf_focusedField :: int
  bf_width :: int
  bf_height :: int

definition NewBackupForm :: BackupForm where
  "NewBackupForm =
     \<lparr>bf_pathsInput = Focus textinput_New, bf_tagsInput = textinput_New,
      bf_excludeInput = textinput_New, bf_focusedField = 0, bf_width = 0, bf_height = 0\<rparr>"

definition BackupForm_BlurAll :: "BackupForm \<Rightarrow> BackupForm" where
  "BackupForm_BlurAll f =
     f\<lparr>bf_pathsInput := Blur (bf_pathsInput f), bf_tagsInput := Blur (bf_tagsInput f),
       bf_excludeInput := Blur (bf_excludeInput f)\<rparr>"

definition BackupForm_FocusCurrent :: "BackupForm \<Rightarrow> BackupForm" where
  "BackupForm_FocusCurrent f =
     (if bf_focusedField f = 0 then f\<lparr>bf_pathsInput := Focus (bf_pathsInput f)\<rparr>
      else if bf_focusedField f = 1 then f\<lparr>bf_tagsInput := Focus (bf_tagsInput f)\<rparr>
      else if bf_focusedField f = 2 then f\<lparr>bf_excludeInput := Focus (bf_excludeInput f)\<rparr>
      else f)"

definition BackupForm_NextField :: "BackupForm \<Rightarrow> BackupForm" where
  "BackupForm_NextField f =
     (let f1 = BackupForm_BlurAll f;
          f2 = f1\<lparr>bf_focusedField := bf_focusedField f1 + 1\<rparr>;
          f3 = (if bf_focusedField f2 > 3 then f2\<lparr>bf_focusedField := 0\<rparr> else f2)
      in BackupForm_FocusCurrent f3)"

definition BackupForm_PrevField :: "BackupForm \<Rightarrow> BackupForm" where
  "BackupForm_PrevField f =
     (let f1 = BackupForm_BlurAll f;
          f2 = f1\<lparr>bf_focusedField := bf_focusedField f1 - 1\<rparr>;
          f3 = (if bf_focusedField f2 < 0 then f2\<lparr>bf_focusedField := 3\<rparr> else f2)
      in BackupForm_FocusCurrent f3)"

text \<open>
  The form's \<open>Update\<close> on a key; the flag tells whether a text input handled the key (and
  so whether the command that input returned is passed on) or the form returned nil.
\<close>

definition BackupForm_Update :: "library \<Rightarrow> string \<Rightarrow> BackupForm \<Rightarrow> BackupForm \<times> bool" where
  "BackupForm_Update lib key f =
     (if key = ''tab'' \<or> key = ''down'' then (BackupForm_NextField f, False)
      else if key = ''shift+tab'' \<or> key = ''up'' then (BackupForm_PrevField f, False)
      else if bf_focusedField f = 0
        then (f\<lparr>bf_pathsInput := textinput_Update lib key (bf_pathsInput f)\<rparr>, True)
      else if bf_focusedField f = 1
        then (f\<lparr>bf_tagsInput := textinput_Update lib key (bf_tagsInput f)\<rparr>, True)
      else if bf_focusedField f = 2
        then (f\<lparr>bf_excludeInput := textinput_Update lib key (bf_excludeInput f)\<rparr>, True)
      else (f, False))"

definition GetPaths :: "BackupForm \<Rightarrow> string list" where
  "GetPaths f = trimmed_parts (ti_value (bf_pathsInput f))"

definition GetTags :: "BackupForm \<Rightarrow> string list" where
  "GetTags f = trimmed_parts (ti_value (bf_tagsInput f))"

definition GetExclude :: "BackupForm \<Rightarrow> string list" where
  "GetExclude f = trimmed_parts (ti_value (bf_excludeInput f))"

definition BackupForm_IsValid :: "BackupForm \<Rightarrow> bool" where
  "BackupForm_IsValid f = (length (GetPaths f) > 0)"

subsection \<open>Restore form\<close>

record RestoreForm =
  rf_snapshot :: "Snapshot option"
  rf_targetInput :: textinput
  rf_includeInput :: textinput
  rf_focusedField :: int
  rf_restoreToOriginal :: bool
  rf_width :: int
  rf_height :: int

definition NewRestoreForm :: "Snapshot option \<Rightarrow> RestoreForm" where
  "NewRestoreForm snapshot =
     \<lparr>rf_snapshot = snapshot, rf_targetInput = Focus textinput_New,
      rf_includeInput = textinput_New, rf_focusedField = 0, rf_restoreToOriginal = False,
      rf_width = 0, rf_height = 0\<rparr>"

definition RestoreForm_BlurAll :: "RestoreForm \<Rightarrow> RestoreForm" where
  "RestoreForm_BlurAll f =
     f\<lparr>rf_targetInput := Blur (rf_targetInput f), rf_includeInput := Blur (rf_includeInput f)\<rparr>"

definition RestoreForm_FocusCurrent :: "RestoreForm \<Rightarrow> RestoreForm" where
  "RestoreForm_FocusCurrent f =
     (if rf_focusedField f = 0
        then (if \<not> rf_restoreToOriginal f
              then f\<lparr>rf_targetInput := Focus (rf_targetInput f)\<rparr> else f)
      else if rf_focusedField f = 1 then f\<lparr>rf_includeInput := Focus (rf_includeInput f)\<rparr>
      else f)"

definition RestoreForm_NextField :: "RestoreForm \<Rightarrow> RestoreForm" where
  "RestoreForm_NextField f =
     (let f1 = RestoreForm_BlurAll f;
          f2 = f1\<lparr>rf_focusedField := rf_focusedField f1 + 1\<rparr>;
          f3 = (if rf_focusedField f2 > 2 then f2\<lparr>rf_focusedField := 0\<rparr> else f2)
      in RestoreForm_FocusCurrent f3)"

definition RestoreForm_PrevField :: "RestoreForm \<Rightarrow> RestoreForm" where
  "RestoreForm_PrevField f =
     (let f1 = RestoreForm_BlurAll f;
          f2 = f1\<lparr>rf_focusedField := rf_focusedField f1 - 1\<rparr>;
          f3 = (if rf_focusedField f2 < 0 then f2\<lparr>rf_focusedField := 2\<rparr> else f2)
      in RestoreForm_FocusCurrent f3)"

definition RestoreForm_Update :: "library \<Rightarrow> string \<Rightarrow> RestoreForm \<Rightarrow> RestoreForm \<times> bool" where
  "RestoreForm_Update lib key f =
     (if key = ''tab'' \<or> key = ''down'' then (RestoreForm_NextField f, False)
      else if key = ''shift+tab'' \<or> key = ''up'' then (RestoreForm_PrevField f, False)
      else if key = '' '' \<and> rf_focusedField f = 0 then
        (let f1 = f\<lparr>rf_restoreToOriginal := \<not> rf_restoreToOriginal f\<rparr>
         in if rf_restoreToOriginal f1
            then (f1\<lparr>rf_targetInput := Blur (SetValue [] (rf_targetInput f1))\<rparr>, False)
            else (f1\<lparr>rf_targetInput := Focus (rf_targetInput f1)\<rparr>, False))
      else if \<not> rf_restoreToOriginal f \<or> rf_focusedField f \<noteq> 0 then
        (if rf_focusedField f = 0
           then (f\<lparr>rf_targetInput := textinput_Update lib key (rf_targetInput f)\<rparr>, True)
         else if rf_focusedField f = 1
           then (f\<lparr>rf_includeInput := textinput_Update lib key (rf_includeInput f)\<rparr>, True)
         else (f, False))
      else (f, False))"

definition GetTarget :: "RestoreForm \<Rightarrow> string" where
  "GetTarget f = (if rf_restoreToOriginal f then [] else TrimSpace (ti_value (rf_targetInput f)))"

definition GetInclude :: "RestoreForm \<Rightarrow> string list" where
  "GetInclude f = trimmed_parts (ti_value (rf_includeInput f))"

definition RestoreForm_IsValid :: "RestoreForm \<Rightarrow> bool" where
  "RestoreForm_IsValid f = (rf_restoreToOriginal f \<or> GetTarget f \<noteq> [])"

definition RestoreForm_SetSize :: "int \<Rightarrow> int \<Rightarrow> RestoreForm \<Rightarrow> RestoreForm" where
  "RestoreForm_SetSize w h f = f\<lparr>rf_width := w, rf_height := h\<rparr>"

definition SetIncludePaths :: "string list \<Rightarrow> RestoreForm \<Rightarrow> RestoreForm" where
  "SetIncludePaths paths f = f\<lparr>rf_includeInput := SetValue (Join paths '', '') (rf_includeInput f)\<rparr>"

subsection \<open>Repository form\<close>

record RepoForm =
  rpf_nameInput :: textinput
  rpf_pathInput :: textinput
  rpf_passwordInput :: textinput
  rpf_focusedField :: int
  rpf_passwordMethod :: string
  rpf_autoGeneratePasswordFile :: bool
  rpf_initializeRepo :: bool
  rpf_width :: int
  rpf_height :: int

definition NewRepoForm :: RepoForm where
  "NewRepoForm =
     \<lparr>rpf_nameInput = Focus textinput_New, rpf_pathInput = textinput_New,
      rpf_passwordInput = textinput_New, rpf_focusedField = 0, rpf_passwordMethod = ''file'',
      rpf_autoGeneratePasswordFile = True, rpf_initializeRepo = False, rpf_width = 0,
      rpf_height = 0\<rparr>"

definition SetPath :: "string \<Rightarrow> RepoForm \<Rightarrow> RepoForm" where
  "SetPath path f = f\<lparr>rpf_pathInput := SetValue path (rpf_pathInput f)\<rparr>"

definition SetName :: "string \<Rightarrow> RepoForm \<Rightarrow> RepoForm" where
  "SetName name f = f\<lparr>rpf_nameInput := SetValue name (rpf_nameInput f)\<rparr>"

section \<open>The application model (pkg/model)\<close>

subsection \<open>State, messages and commands\<close>

record SnapshotsLoadStartMsg =
  sl_RepoName :: string
  sl_RepoPath :: string

text \<open>
  An update channel, as its listener sees it once the session has run: the messages still
  to be received, in order; when none is left the channel is closed (every session closes
  its channel when it returns).
\<close>

type_synonym 'm chan = "'m list"

datatype Msg =
    WindowSizeMsg int int
  | RepositoriesLoadedMsg "Repository list"
  | SnapshotsLoadedMsg "Snapshot list" "string option" int SnapshotsLoadStartMsg
  | FilesLoadedMsg "FileNode list" "string option"
  | BackupProgressMsg "BackupProgress option" "BackupMessage chan option"
  | BackupSummaryMsg "BackupSummary option" "string option"
  | RestoreProgressMsg "RestoreProgress option" "RestoreMessage chan option"
  | RestoreSummaryMsg "RestoreSummary option" "string option"
  | ForgetDryRunMsg "ForgetResult list" ForgetPolicy "string option"
  | ForgetCompleteMsg "string option"
  | PruneDryRunMsg string "string option"
  | PruneCompleteMsg "string option"
  | ScannedReposMsg "RepositoryConfig list"
  | CacheCleanupMsg string "string option"
  | UnlockMsg string "string option"
  | RepoRemovedMsg string "string option"
  | KeyMsg string

text \<open>
  The follow-up action that \<open>Update\<close> returns. A method value such as \<open>m.loadSnapshots\<close>
  is bound to a copy of the model, so it carries the repository index of that moment;
  the configuration is reached through a pointer and read when the command runs.
  \<open>Return msg\<close> is a command that only returns the given message, \<open>InputCmd\<close> the command
  that a text input of the library returned, \<open>NoCmd\<close> is nil.
\<close>

datatype Cmd =
    NoCmd
  | Quit
  | Batch "Cmd list"
  | InputCmd
  | Return Msg
  | LoadRepositories
  | LoadSnapshots int
  | LoadFiles int
  | ListenForBackupUpdates "BackupMessage chan"
  | ListenForRestoreUpdates "RestoreMessage chan"
  | ExecuteBackup RepositoryConfig BackupOptions
  | ExecuteRestore RepositoryConfig RestoreOptions
  | CleanupCache int
  | UnlockRepository int
  | RemoveRepository string
  | ScanForRepositories

text \<open>
  What a call does: it returns, or it panics (an index out of range, a nil form, a
  division by zero), or it runs into a part of \<open>Update\<close> that this development leaves
  out: the window-size message, whose layout arithmetic is floating point, and the keys
  of the repository form, which writes files and runs restic inside \<open>Update\<close>.
\<close>

datatype 'a result = Returns 'a | Panics | NotModelled

record Model =
  m_width :: int
  m_height :: int
  ready :: bool
  tooSmall :: bool
  config :: ResticConfig
  activePanel :: int
  repositories :: "Repository list"
  currentRepoIndex :: int
  loadingSnapshots :: bool
  loadingRepositories :: bool
  repoPanel :: RepositoryPanel
  metricsPanel :: RepoMetricsPanel
  snapPanel :: SnapshotPanel
  opsPanel :: OperationsPanel
  showHelp :: bool
  showRepoForm :: bool
  repoForm :: "RepoForm option"
  showBackupForm :: bool
  backupForm :: BackupForm
  backupInProgress :: bool
  currentBackupProgress :: "BackupProgress option"
  showRestoreForm :: bool
  restoreForm :: "RestoreForm option"
  restoreInProgress :: bool
  currentRestoreProgress :: "RestoreProgress option"
  filterInputActive :: bool
  filterInputText :: string
  showFileBrowser :: bool
  fileBrowser :: "FileBrowser option"
  showFoundRepos :: bool
  foundRepos :: "RepositoryConfig list"
  selectedFound :: int
  showForgetForm :: bool
  showForgetPreview :: bool
  forgetPreview :: "ForgetPreview option"
  showForgetConfirm :: bool
  forgetConfirmDialog :: "ConfirmationDialog option"
  forgetPreviewResults :: "ForgetResult list"
  forgetPolicy :: "ForgetPolicy option"
  showPruneConfirm :: bool
  pruneConfirmDialog :: "ConfirmationDialog option"
  pruneDryRunOutput :: string
  showRemoveConfirm :: bool
  removeConfirmDialog :: "ConfirmationDialog option"
  repoToRemove :: string

definition PanelRepositories :: int where "PanelRepositories = 0"
definition PanelMetrics :: int where "PanelMetrics = 1"
definition PanelSnapshots :: int where "PanelSnapshots = 2"
definition PanelOperations :: int where "PanelOperations = 3"

text \<open>
  The model that \<open>NewModel\<close> builds from a loaded configuration (the start-up lines of the
  log, which report the restic version found, are left out).
\<close>

definition NewModel :: "ResticConfig \<Rightarrow> Model" where
  "NewModel cfg =
     \<lparr>m_width = 0, m_height = 0, ready = False, tooSmall = False, config = cfg,
      activePanel = PanelRepositories, repositories = [], currentRepoIndex = 0,
      loadingSnapshots = False, loadingRepositories = True,
      repoPanel = NewRepositoryPanel, metricsPanel = NewRepoMetricsPanel,
      snapPanel = NewSnapshotPanel, opsPanel = NewOperationsPanel, showHelp = False,
      showRepoForm = False, repoForm = Some NewRepoForm, showBackupForm = False,
      backupForm = NewBackupForm, backupInProgress = False, currentBackupProgress = None,
      showRestoreForm = False, restoreForm = None, restoreInProgress = False,
      currentRestoreProgress = None, filterInputActive = False, filterInputText = [],
      showFileBrowser = False, fileBrowser = None, showFoundRepos = False, foundRepos = [],
      selectedFound = 0, showForgetForm = False, showForgetPreview = False,
      forgetPreview = None, showForgetConfirm = False, forgetConfirmDialog = None,
      forgetPreviewResults = [], forgetPolicy = None, showPruneConfirm = False,
      pruneConfirmDialog = None, pruneDryRunOutput = [], showRemoveConfirm = False,
      removeConfirmDialog = None, repoToRemove = []\<rparr>"

text \<open>Indexing a slice: \<open>None\<close> is the panic of an index out of range.\<close>

definition index_at :: "'a list \<Rightarrow> int \<Rightarrow> 'a option" where
  "index_at xs i = (if 0 \<le> i \<and> i < int (length xs) then Some (xs ! nat i) else None)"

text \<open>Writing to the operations log of the model.\<close>

definition log_info :: "string \<Rightarrow> fmt_arg list \<Rightarrow> Model \<Rightarrow> Model" where
  "log_info message args m = m\<lparr>opsPanel := Info message args (opsPanel m)\<rparr>"

definition log_dimmed :: "string \<Rightarrow> fmt_arg list \<Rightarrow> Model \<Rightarrow> Model" where
  "log_dimmed message args m = m\<lparr>opsPanel := Dimmed message args (opsPanel m)\<rparr>"

definition log_success :: "string \<Rightarrow> fmt_arg list \<Rightarrow> Model \<Rightarrow> Model" where
  "log_success message args m = m\<lparr>opsPanel := Success message args (opsPanel m)\<rparr>"

definition log_warning :: "string \<Rightarrow> fmt_arg list \<Rightarrow> Model \<Rightarrow> Model" where
  "log_warning message args m = m\<lparr>opsPanel := Warning message args (opsPanel m)\<rparr>"

definition log_error :: "string \<Rightarrow> fmt_arg list \<Rightarrow> Model \<Rightarrow> Model" where
  "log_error message args m = m\<lparr>opsPanel := LogError message args (opsPanel m)\<rparr>"

text \<open>The rule of dashes that frames some groups of log lines.\<close>

definition separator :: string where
  "separator = replicate 57 (CHR ''-'')"

definition loadSnapshotsWithMessage :: "Model \<Rightarrow> Model \<times> Cmd" where
  "loadSnapshotsWithMessage m =
     (let m1 = log_info ''Loading snapshots...'' [] (m\<lparr>loadingSnapshots := True\<rparr>)
      in (m1, LoadSnapshots (currentRepoIndex m1)))"

definition logSelectedSnapshot :: "Model \<Rightarrow> Model" where
  "logSelectedSnapshot m =
     (case SnapshotPanel_GetSelected (snapPanel m) of
        None \<Rightarrow> m
      | Some snapshot \<Rightarrow>
          (let m1 = log_success separator [] m;
               m2 = log_success ''Snapshot: %s'' [ArgStr (snap_ShortID snapshot)] m1;
               m3 = log_dimmed ''Full ID: %s'' [ArgStr (snap_ID snapshot)] m2;
               m4 = log_info ''Created: %s'' [ArgInt (snap_Time snapshot)] m3;
               m5 = log_info ''Hostname: %s'' [ArgStr (snap_Hostname snapshot)] m4;
               m6 = (if length (snap_Paths snapshot) > 0
                     then log_info ''Paths: %s'' [ArgStr (Join (snap_Paths snapshot) '', '')] m5
                     else m5);
               m7 = (if length (snap_Tags snapshot) > 0
                     then log_info ''Tags: %s'' [ArgStr (Join (snap_Tags snapshot) '', '')] m6
                     else m6);
               m8 = (if snap_Username snapshot \<noteq> []
                     then log_dimmed ''User: %s'' [ArgStr (snap_Username snapshot)] m7
                     else m7);
               m9 = log_dimmed ''Time ago: %s'' [ArgInt (snap_Time snapshot)] m8
           in log_success separator [] m9))"

text \<open>
  \<open>Model.GetSelected\<close>: the index, among the model's repositories, of the first one that
  has the name of the repository selected in the panel, and 0 when there is none.
\<close>

fun find_by_name :: "string \<Rightarrow> Repository list \<Rightarrow> int \<Rightarrow> int option" where
  "find_by_name name [] i = None"
| "find_by_name name (r # rs) i =
     (if repo_Name r = name then Some i else find_by_name name rs (i + 1))"

definition GetSelected :: "Model \<Rightarrow> int" where
  "GetSelected m =
     (case RepositoryPanel_GetSelected (repoPanel m) of
        Some repo \<Rightarrow>
          (case find_by_name (repo_Name repo) (repositories m) 0 of
             Some i \<Rightarrow> i
           | None \<Rightarrow> 0)
      | None \<Rightarrow> 0)"

text \<open>
  \<open>View\<close> is called after every update; besides drawing, it hands the model's
  repositories to the repository panel whenever the main view is drawn.
\<close>

definition View_effect :: "Model \<Rightarrow> Model" where
  "View_effect m =
     (if \<not> ready m \<or> tooSmall m \<or> showHelp m \<or> showBackupForm m \<or> showRestoreForm m
         \<or> showRepoForm m \<or> showFileBrowser m \<or> showFoundRepos m \<or> showRemoveConfirm m
      then m
      else m\<lparr>repoPanel := SetRepositories (repositories m) (repoPanel m)\<rparr>)"

subsection \<open>Commands of the sessions (pkg/model/commands.go)\<close>

definition executeBackup :: "Model \<Rightarrow> BackupOptions \<Rightarrow> Cmd result" where
  "executeBackup m opts =
     (if currentRepoIndex m \<ge> int (length (Repositories (config m)))
      then Returns (Return (BackupSummaryMsg None (Some ''no repository selected'')))
      else case index_at (Repositories (config m)) (currentRepoIndex m) of
             None \<Rightarrow> Panics
           | Some repoConfig \<Rightarrow> Returns (ExecuteBackup repoConfig opts))"

definition waitForBackupUpdate :: "BackupMessage chan \<Rightarrow> Msg" where
  "waitForBackupUpdate updates =
     (case updates of
        [] \<Rightarrow> BackupSummaryMsg None None
      | msg # rest \<Rightarrow>
          (if Error msg \<noteq> None then BackupSummaryMsg None (Error msg)
           else if Progress msg \<noteq> None then BackupProgressMsg (Progress msg) (Some rest)
           else if Summary msg \<noteq> None then BackupSummaryMsg (Summary msg) None
           else BackupProgressMsg None (Some rest)))"

definition listenForBackupUpdates :: "BackupMessage chan \<Rightarrow> Cmd" where
  "listenForBackupUpdates updates = ListenForBackupUpdates updates"

definition executeRestore :: "Model \<Rightarrow> RestoreOptions \<Rightarrow> Cmd result" where
  "executeRestore m opts =
     (if currentRepoIndex m \<ge> int (length (Repositories (config m)))
      then Returns (Return (RestoreSummaryMsg None (Some ''no repository selected'')))
      else case index_at (Repositories (config m)) (currentRepoIndex m) of
             None \<Rightarrow> Panics
           | Some repoConfig \<Rightarrow> Returns (ExecuteRestore repoConfig opts))"

definition waitForRestoreUpdate :: "RestoreMessage chan \<Rightarrow> Msg" where
  "waitForRestoreUpdate updates =
     (case updates of
        [] \<Rightarrow> RestoreSummaryMsg None None
      | msg # rest \<Rightarrow>
          (if Error msg \<noteq> None then RestoreSummaryMsg None (Error msg)
           else if Progress msg \<noteq> None then RestoreProgressMsg (Progress msg) (Some rest)
           else if Summary msg \<noteq> None then RestoreSummaryMsg (Summary msg) None
           else RestoreProgressMsg None (Some rest)))"

definition listenForRestoreUpdates :: "RestoreMessage chan \<Rightarrow> Cmd" where
  "listenForRestoreUpdates updates = ListenForRestoreUpdates updates"

subsection \<open>Update: the messages of finished queries and operations\<close>

definition on_RepositoriesLoaded :: "Repository list \<Rightarrow> Model \<Rightarrow> (Model \<times> Cmd) result" where
  "on_RepositoriesLoaded repos m =
     (let m1 = log_success ''Loaded %d repositories from config'' [ArgInt (int (length repos))]
                 (m\<lparr>loadingRepositories := False, repositories := repos\<rparr>)
      in if length repos = 0 then
           (let m2 = log_dimmed ''No repositories configured'' [] m1;
                m3 = log_info ''Press 'a' to add repository or 's' to scan for existing repos'' [] m2;
                m4 = log_dimmed ''Config: ~/.config/lazyrestic/config.yaml'' [] m3
            in Returns (m4\<lparr>metricsPanel := SetRepository None (metricsPanel m4)\<rparr>, NoCmd))
         else if currentRepoIndex m1 < int (length (repositories m1)) then
           (case index_at (repositories m1) (currentRepoIndex m1) of
              None \<Rightarrow> Panics
            | Some selectedRepo \<Rightarrow>
                (let m2 = m1\<lparr>metricsPanel := SetRepository (Some selectedRepo) (metricsPanel m1)\<rparr>;
                     m3 = log_info (''Selected repository: '%s' at %s'')
                            [ArgStr (repo_Name selectedRepo), ArgStr (repo_Path selectedRepo)] m2
                 in Returns (loadSnapshotsWithMessage m3)))
         else Returns (loadSnapshotsWithMessage m1))"

definition on_SnapshotsLoaded ::
  "Snapshot list \<Rightarrow> string option \<Rightarrow> int \<Rightarrow> SnapshotsLoadStartMsg \<Rightarrow> Model \<Rightarrow> (Model \<times> Cmd) result" where
  "on_SnapshotsLoaded snaps err filteredCount cmdLog m =
     (let m1 = m\<lparr>loadingSnapshots := False\<rparr> in
      case err of
        Some e \<Rightarrow>
          (let m2 = log_error ''Failed to load snapshots from '%s': %v''
                      [ArgStr (sl_RepoName cmdLog), ArgStr e] m1;
               m3 = log_dimmed ''Repository: %s'' [ArgStr (sl_RepoPath cmdLog)] m2
           in Returns (m3, NoCmd))
      | None \<Rightarrow>
          (let m2 = m1\<lparr>snapPanel := SetSnapshots snaps (snapPanel m1)\<rparr>;
               m3 = log_success (''Loaded %d snapshots from '%s'' @ [CHR 0x27])
                      [ArgInt (int (length snaps)), ArgStr (sl_RepoName cmdLog)] m2;
               m4 = log_dimmed ''Repository path: %s'' [ArgStr (sl_RepoPath cmdLog)] m3;
               m5 = (if filteredCount > 0
                     then log_dimmed ''Filtered %d systemd-private snapshots''
                            [ArgInt filteredCount] m4
                     else m4);
               m6 = log_info ''Command: restic -r %s snapshots --json''
                      [ArgStr (sl_RepoPath cmdLog)] m5;
               m7 = (if length snaps > 0 then logSelectedSnapshot m6 else m6)
           in Returns (m7, NoCmd)))"

definition on_FilesLoaded :: "FileNode list \<Rightarrow> string option \<Rightarrow> Model \<Rightarrow> (Model \<times> Cmd) result" where
  "on_FilesLoaded files err m =
     (case err of
        Some e \<Rightarrow> Returns (log_error ''Failed to load files: %v'' [ArgStr e] m, NoCmd)
      | None \<Rightarrow>
          (case fileBrowser m of
             None \<Rightarrow> Returns (m, NoCmd)
           | Some fb \<Rightarrow>
               (case FileBrowser_SetFiles files fb of
                  None \<Rightarrow> Panics
                | Some fb' \<Rightarrow>
                    Returns (log_info ''Loaded %d files/directories''
                               [ArgInt (int (length files))] (m\<lparr>fileBrowser := Some fb'\<rparr>),
                             NoCmd))))"

definition on_BackupProgress ::
  "BackupProgress option \<Rightarrow> BackupMessage chan option \<Rightarrow> Model \<Rightarrow> (Model \<times> Cmd) result" where
  "on_BackupProgress progress updates m =
     (let m1 = m\<lparr>currentBackupProgress := progress\<rparr>;
          m2 = (if progress \<noteq> None
                then m1\<lparr>opsPanel := SetBackupProgress progress (opsPanel m1)\<rparr> else m1)
      in case updates of
           Some ch \<Rightarrow> Returns (m2, listenForBackupUpdates ch)
         | None \<Rightarrow> Returns (m2, NoCmd))"

definition on_BackupSummary ::
  "BackupSummary option \<Rightarrow> string option \<Rightarrow> Model \<Rightarrow> (Model \<times> Cmd) result" where
  "on_BackupSummary summary err m =
     (let m1 = m\<lparr>backupInProgress := False, currentBackupProgress := None\<rparr>;
          m2 = m1\<lparr>opsPanel := ClearBackupProgress (opsPanel m1)\<rparr>;
          m3 = (case err of
                  Some e \<Rightarrow> log_error ''Backup failed: %v'' [ArgStr e] m2
                | None \<Rightarrow>
                    (case summary of
                       Some s \<Rightarrow>
                         log_success ''Backup completed! New: %d, Changed: %d, Unmodified: %d''
                           [ArgInt (bs_FilesNew s), ArgInt (bs_FilesChanged s),
                            ArgInt (bs_FilesUnmodified s)] m2
                     | None \<Rightarrow> log_success ''Backup completed successfully'' [] m2))
      in Returns (loadSnapshotsWithMessage m3))"

definition on_RestoreProgress ::
  "RestoreProgress option \<Rightarrow> RestoreMessage chan option \<Rightarrow> Model \<Rightarrow> (Model \<times> Cmd) result" where
  "on_RestoreProgress progress updates m =
     (let m1 = m\<lparr>currentRestoreProgress := progress\<rparr>;
          m2 = (if progress \<noteq> None then log_info ''Restoring snapshot...'' [] m1 else m1)
      in case updates of
           Some ch \<Rightarrow> Returns (m2, listenForRestoreUpdates ch)
         | None \<Rightarrow> Returns (m2, NoCmd))"

definition on_RestoreSummary ::
  "RestoreSummary option \<Rightarrow> string option \<Rightarrow> Model \<Rightarrow> (Model \<times> Cmd) result" where
  "on_RestoreSummary summary err m =
     (let m1 = m\<lparr>restoreInProgress := False, currentRestoreProgress := None\<rparr>;
          m2 = (case err of
                  Some e \<Rightarrow> log_error ''Restore failed: %v'' [ArgStr e] m1
                | None \<Rightarrow>
                    (case summary of
                       Some s \<Rightarrow> log_success ''Restore completed successfully'' [] m1
                     | None \<Rightarrow> log_success ''Restore completed'' [] m1))
      in Returns (m2, NoCmd))"

definition on_ForgetDryRun ::
  "ForgetResult list \<Rightarrow> ForgetPolicy \<Rightarrow> string option \<Rightarrow> Model \<Rightarrow> (Model \<times> Cmd) result" where
  "on_ForgetDryRun results policy err m =
     (case err of
        Some e \<Rightarrow>
          Returns ((log_error ''Forget dry-run failed: %v'' [ArgStr e] m)\<lparr>showForgetForm := False\<rparr>,
                   NoCmd)
      | None \<Rightarrow>
          (let preview = ForgetPreview_SetSize ((m_width m * 3) sdiv 4) ((m_height m * 3) sdiv 4)
                           (NewForgetPreview results policy);
               m1 = m\<lparr>forgetPreviewResults := results, forgetPolicy := Some policy,
                      forgetPreview := Some preview, showForgetForm := False,
                      showForgetPreview := True\<rparr>;
               totalRemove = GetTotalToRemove preview
           in Returns (log_info ''Dry-run complete: %d snapshots will be removed''
                         [ArgInt totalRemove] m1, NoCmd)))"

definition on_ForgetComplete :: "string option \<Rightarrow> Model \<Rightarrow> (Model \<times> Cmd) result" where
  "on_ForgetComplete err m =
     (let m1 = m\<lparr>showForgetConfirm := False, forgetConfirmDialog := None\<rparr>;
          m2 = (case err of
                  Some e \<Rightarrow> log_error ''Forget failed: %v'' [ArgStr e] m1
                | None \<Rightarrow>
                    log_success ''Forget completed: %d snapshots removed''
                      [ArgInt (total_to_remove (forgetPreviewResults m1) 0)] m1)
      in Returns (loadSnapshotsWithMessage m2))"

definition on_PruneDryRun :: "string \<Rightarrow> string option \<Rightarrow> Model \<Rightarrow> (Model \<times> Cmd) result" where
  "on_PruneDryRun output err m =
     (case err of
        Some e \<Rightarrow> Returns (log_error ''Prune dry-run failed: %v'' [ArgStr e] m, NoCmd)
      | None \<Rightarrow>
          (let dialog = ConfirmationDialog_SetSize ((m_width m * 3) sdiv 4) ((m_height m * 3) sdiv 4)
                          (NewConfirmationDialog ''PRUNE REPOSITORY''
                             (''You are about to PRUNE the repository.'' @ [CHR 0x0A, CHR 0x0A]
                              @ ''This will permanently remove unreferenced data.'' @ [CHR 0x0A]
                              @ ''This operation CANNOT be undone!'' @ [CHR 0x0A, CHR 0x0A]
                              @ output)
                             ''PRUNE'');
               m1 = m\<lparr>pruneDryRunOutput := output, pruneConfirmDialog := Some dialog,
                      showPruneConfirm := True\<rparr>
           in Returns (log_info ''Prune dry-run complete - review and confirm'' [] m1, NoCmd)))"

definition on_PruneComplete :: "string option \<Rightarrow> Model \<Rightarrow> (Model \<times> Cmd) result" where
  "on_PruneComplete err m =
     (let m1 = m\<lparr>showPruneConfirm := False, pruneConfirmDialog := None\<rparr>;
          m2 = (case err of
                  Some e \<Rightarrow> log_error ''Prune failed: %v'' [ArgStr e] m1
                | None \<Rightarrow> log_success ''Prune completed successfully'' [] m1)
      in Returns (m2, LoadRepositories))"

definition on_ScannedRepos :: "RepositoryConfig list \<Rightarrow> Model \<Rightarrow> (Model \<times> Cmd) result" where
  "on_ScannedRepos found m =
     (if length found = 0 then
        (let m1 = log_info ''No restic repositories found in scanned locations'' [] m
         in Returns (log_dimmed ''Scanned: /mnt, /media, /backup, /srv, /opt'' [] m1, NoCmd))
      else
        (let m1 = log_success ''Found %d potential repositories'' [ArgInt (int (length found))] m;
             m2 = log_info ''Select a repository and press Enter to add it'' [] m1
         in Returns (m2\<lparr>showFoundRepos := True, foundRepos := found, selectedFound := 0\<rparr>,
                     NoCmd)))"

definition on_CacheCleanup :: "string \<Rightarrow> string option \<Rightarrow> Model \<Rightarrow> (Model \<times> Cmd) result" where
  "on_CacheCleanup output err m =
     (case err of
        Some e \<Rightarrow> Returns (log_error ''Cache cleanup failed: %v'' [ArgStr e] m, NoCmd)
      | None \<Rightarrow>
          (let m1 = log_success ''Cache cleanup completed successfully'' [] m;
               m2 = (if output \<noteq> [] then log_info output [] m1 else m1)
           in Returns (log_dimmed ''Removed old/unused cache entries'' [] m2, NoCmd)))"

definition on_Unlock :: "string \<Rightarrow> string option \<Rightarrow> Model \<Rightarrow> (Model \<times> Cmd) result" where
  "on_Unlock output err m =
     (case err of
        Some e \<Rightarrow> Returns (log_error ''Unlock failed: %v'' [ArgStr e] m, NoCmd)
      | None \<Rightarrow>
          (let m1 = log_success ''Repository unlocked successfully'' [] m;
               m2 = (if output \<noteq> [] then log_info output [] m1 else m1)
           in Returns (log_dimmed ''Stale locks removed - repository is now accessible'' [] m2,
                       LoadRepositories)))"

definition on_RepoRemoved :: "string \<Rightarrow> string option \<Rightarrow> Model \<Rightarrow> (Model \<times> Cmd) result" where
  "on_RepoRemoved repoName err m =
     (let m1 = m\<lparr>showRemoveConfirm := False, removeConfirmDialog := None, repoToRemove := []\<rparr> in
      case err of
        Some e \<Rightarrow>
          (let m2 = log_error ''Failed to remove repository: %v'' [ArgStr e] m1
           in Returns (log_dimmed ''Repository was not removed from configuration'' [] m2, NoCmd))
      | None \<Rightarrow>
          (let m2 = log_success separator [] m1;
               m3 = log_success ''Repository '%s' removed from LazyRestic'' [ArgStr repoName] m2;
               m4 = log_dimmed ''Configuration file updated: %s''
                      [ArgStr ''~/.config/lazyrestic/config.yaml''] m3;
               m5 = log_info ''Repository files are still on disk - only config entry removed'' [] m4
           in Returns (log_success separator [] m5, LoadRepositories)))"

subsection \<open>Update: the keys\<close>

definition key_help :: "Model \<Rightarrow> string \<Rightarrow> (Model \<times> Cmd) result" where
  "key_help m key =
     (if key = ''?'' \<or> key = ''esc'' then Returns (m\<lparr>showHelp := False\<rparr>, NoCmd)
      else Returns (m, NoCmd))"

definition key_backup_form :: "library \<Rightarrow> Model \<Rightarrow> string \<Rightarrow> (Model \<times> Cmd) result" where
  "key_backup_form lib m key =
     (if key = ''esc'' then Returns (m\<lparr>showBackupForm := False\<rparr>, NoCmd)
      else if key = ''enter'' \<and> BackupForm_IsValid (backupForm m) then
        (let opts = \<lparr>bo_Paths = GetPaths (backupForm m), bo_Tags = GetTags (backupForm m),
                     bo_Exclude = GetExclude (backupForm m)\<rparr>;
             m1 = m\<lparr>showBackupForm := False, backupInProgress := True\<rparr>;
             m2 = log_info ''Starting backup of %d paths...''
                    [ArgInt (int (length (bo_Paths opts)))] m1
         in case executeBackup m2 opts of
              Returns cmd \<Rightarrow> Returns (m2, cmd)
            | Panics \<Rightarrow> Panics
            | NotModelled \<Rightarrow> NotModelled)
      else
        (case BackupForm_Update lib key (backupForm m) of
           (f, by_input) \<Rightarrow> Returns (m\<lparr>backupForm := f\<rparr>, if by_input then InputCmd else NoCmd)))"

definition key_restore_form :: "library \<Rightarrow> Model \<Rightarrow> string \<Rightarrow> (Model \<times> Cmd) result" where
  "key_restore_form lib m key =
     (if key = ''esc'' then Returns (m\<lparr>showRestoreForm := False\<rparr>, NoCmd)
      else case restoreForm m of
        None \<Rightarrow> Panics
      | Some form \<Rightarrow>
          (if key = ''enter'' \<and> RestoreForm_IsValid form then
             (case SnapshotPanel_GetSelected (snapPanel m) of
                None \<Rightarrow>
                  Returns ((log_error ''No snapshot selected'' [] m)\<lparr>showRestoreForm := False\<rparr>,
                           NoCmd)
              | Some selectedSnapshot \<Rightarrow>
                  (let opts = \<lparr>ro_SnapshotID = snap_ID selectedSnapshot,
                               ro_Target = GetTarget form, ro_Include = GetInclude form\<rparr>;
                       m1 = m\<lparr>showRestoreForm := False, restoreInProgress := True\<rparr>;
                       m2 = log_info ''Starting restore of snapshot %s...''
                              [ArgStr (snap_ShortID selectedSnapshot)] m1
                   in case executeRestore m2 opts of
                        Returns cmd \<Rightarrow> Returns (m2, cmd)
                      | Panics \<Rightarrow> Panics
                      | NotModelled \<Rightarrow> NotModelled))
           else
             (case RestoreForm_Update lib key form of
                (f, by_input) \<Rightarrow>
                  Returns (m\<lparr>restoreForm := Some f\<rparr>, if by_input then InputCmd else NoCmd))))"

definition key_filter_input :: "Model \<Rightarrow> string \<Rightarrow> (Model \<times> Cmd) result" where
  "key_filter_input m key =
     (if key = ''esc'' then
        Returns (m\<lparr>filterInputActive := False, filterInputText := []\<rparr>, NoCmd)
      else if key = ''enter'' then
        (let m1 = m\<lparr>snapPanel := SetFilter (filterInputText m) (snapPanel m),
                      filterInputActive := False\<rparr>
         in Returns (log_info ''Filter applied: %s'' [ArgStr (filterInputText m1)] m1, NoCmd))
      else if key = ''backspace'' then
        (if length (filterInputText m) > 0 then
           (let m1 = m\<lparr>filterInputText := butlast (filterInputText m)\<rparr>
            in if filterInputText m1 = []
               then Returns (m1\<lparr>snapPanel := ClearFilter (snapPanel m1)\<rparr>, NoCmd)
               else Returns (m1\<lparr>snapPanel := SetFilter (filterInputText m1) (snapPanel m1)\<rparr>,
                             NoCmd))
         else Returns (m, NoCmd))
      else if length key = 1 then
        (let m1 = m\<lparr>filterInputText := filterInputText m @ key\<rparr>
         in Returns (m1\<lparr>snapPanel := SetFilter (filterInputText m1) (snapPanel m1)\<rparr>, NoCmd))
      else Returns (m, NoCmd))"

definition CanGoUp :: "FileBrowser \<Rightarrow> bool" where
  "CanGoUp fb = (fb_currentPath fb \<noteq> ''/'' \<and> fb_currentPath fb \<noteq> [])"

definition GoUp :: "library \<Rightarrow> FileBrowser \<Rightarrow> FileBrowser" where
  "GoUp lib fb =
     (if \<not> CanGoUp fb then fb
      else (let fb1 = fb\<lparr>fb_currentPath := path_Dir lib (fb_currentPath fb)\<rparr>
            in if fb_currentPath fb1 = ''.'' then fb1\<lparr>fb_currentPath := ''/''\<rparr> else fb1))"

text \<open>
  The keys of the file browser. \<open>None\<close> is a key that the browser's switch does not
  list: control then goes on to the blocks that follow it in \<open>Update\<close>.
\<close>

definition key_file_browser ::
  "library \<Rightarrow> Model \<Rightarrow> FileBrowser \<Rightarrow> string \<Rightarrow> (Model \<times> Cmd) result option" where
  "key_file_browser lib m fb key =
     (if key = ''esc'' then
        Some (Returns (log_info ''Closed file browser'' [] (m\<lparr>showFileBrowser := False\<rparr>), NoCmd))
      else if key = ''j'' \<or> key = ''down'' then
        Some (Returns (m\<lparr>fileBrowser := Some (FileBrowser_MoveDown fb)\<rparr>, NoCmd))
      else if key = ''k'' \<or> key = ''up'' then
        Some (Returns (m\<lparr>fileBrowser := Some (FileBrowser_MoveUp fb)\<rparr>, NoCmd))
      else if key = ''h'' \<or> key = ''left'' then
        (if CanGoUp fb
         then Some (Returns (m\<lparr>fileBrowser := Some (GoUp lib fb)\<rparr>, LoadFiles (currentRepoIndex m)))
         else Some (Returns (m, NoCmd)))
      else if key = ''n'' \<or> key = ''pgdown'' then
        (case NextPage fb of
           None \<Rightarrow> Some Panics
         | Some fb' \<Rightarrow> Some (Returns (m\<lparr>fileBrowser := Some fb'\<rparr>, NoCmd)))
      else if key = ''p'' \<or> key = ''pgup'' then
        Some (Returns (m\<lparr>fileBrowser := Some (PrevPage fb)\<rparr>, NoCmd))
      else if key = ''l'' \<or> key = ''right'' \<or> key = ''enter'' then
        (case EnterDirectory fb of
           (fb', newPath, entered) \<Rightarrow>
             (if entered
              then Some (Returns (log_info ''Navigating to %s...'' [ArgStr newPath]
                                    (m\<lparr>fileBrowser := Some fb'\<rparr>),
                                  LoadFiles (currentRepoIndex m)))
              else Some (Returns (m\<lparr>fileBrowser := Some fb'\<rparr>, NoCmd))))
      else if key = '' '' \<or> key = ''space'' then
        Some (Returns (m\<lparr>fileBrowser := Some (ToggleSelection fb)\<rparr>, NoCmd))
      else if key = ''r'' then
        (let selectedFiles = GetSelectedFiles fb in
         if length selectedFiles = 0 then
           Some (Returns (log_warning ''No files selected - press Space to select files'' [] m,
                          NoCmd))
         else
           (let paths = map node_Path selectedFiles;
                form0 = RestoreForm_SetSize ((m_width m * 2) sdiv 3) ((m_height m * 2) sdiv 3)
                          (NewRestoreForm (fb_snapshot fb));
                form = SetIncludePaths paths form0;
                m1 = m\<lparr>restoreForm := Some form, showRestoreForm := True,
                       showFileBrowser := False\<rparr>
            in Some (Returns (log_info ''Restoring %d selected files...''
                                [ArgInt (int (length paths))] m1, NoCmd))))
      else None)"

definition key_found_repos :: "Model \<Rightarrow> string \<Rightarrow> (Model \<times> Cmd) result option" where
  "key_found_repos m key =
     (if key = ''esc'' then
        Some (Returns (log_info ''Cancelled repository selection'' []
                         (m\<lparr>showFoundRepos := False, foundRepos := [], selectedFound := 0\<rparr>),
                       NoCmd))
      else if key = ''j'' \<or> key = ''down'' then
        Some (Returns ((if selectedFound m < int (length (foundRepos m)) - 1
                        then m\<lparr>selectedFound := selectedFound m + 1\<rparr> else m), NoCmd))
      else if key = ''k'' \<or> key = ''up'' then
        Some (Returns ((if selectedFound m > 0
                        then m\<lparr>selectedFound := selectedFound m - 1\<rparr> else m), NoCmd))
      else if key = ''enter'' then
        (if selectedFound m \<ge> 0 \<and> selectedFound m < int (length (foundRepos m)) then
           (let selectedRepo = foundRepos m ! nat (selectedFound m);
                m1 = m\<lparr>showFoundRepos := False, foundRepos := [], selectedFound := 0,
                       repoForm := Some (SetName (cfg_Name selectedRepo)
                                          (SetPath (cfg_Path selectedRepo) NewRepoForm)),
                       showRepoForm := True\<rparr>
            in Some (Returns (log_info ''Adding repository: %s''
                                [ArgStr (cfg_Name selectedRepo)] m1, NoCmd)))
         else Some (Returns (m, NoCmd)))
      else None)"

definition key_remove_confirm ::
  "library \<Rightarrow> Model \<Rightarrow> ConfirmationDialog \<Rightarrow> string \<Rightarrow> (Model \<times> Cmd) result" where
  "key_remove_confirm lib m dialog key =
     (if key = ''esc'' then
        Returns (log_info ''Cancelled repository removal'' []
                   (m\<lparr>showRemoveConfirm := False, removeConfirmDialog := None,
                      repoToRemove := []\<rparr>), NoCmd)
      else if key = ''enter'' then
        (if IsConfirmed dialog then
           (let m1 = log_info ''Confirmed - removing '%s' from configuration...''
                       [ArgStr (repoToRemove m)] m;
                m2 = log_dimmed ''Updating configuration file...'' [] m1
            in Returns (m2, RemoveRepository (repoToRemove m2)))
         else Returns (m, NoCmd))
      else
        Returns (m\<lparr>removeConfirmDialog := Some (ConfirmationDialog_Update lib key dialog)\<rparr>,
                 InputCmd))"

definition nl :: string where
  "nl = [CHR 0x0A]"

definition key_main :: "Model \<Rightarrow> string \<Rightarrow> (Model \<times> Cmd) result" where
  "key_main m key =
     (if key = ''ctrl+c'' \<or> key = ''q'' then Returns (m, Quit)
      else if key = ''?'' then Returns (m\<lparr>showHelp := True\<rparr>, NoCmd)
      else if key = ''tab'' \<or> key = ''l'' \<or> key = ''right'' then
        Returns (m\<lparr>activePanel := (activePanel m + 1) smod 4\<rparr>, NoCmd)
      else if key = ''shift+tab'' \<or> key = ''h'' \<or> key = ''left'' then
        Returns (m\<lparr>activePanel := (activePanel m + 3) smod 4\<rparr>, NoCmd)
      else if key = ''j'' \<or> key = ''down'' then
        (if activePanel m = PanelRepositories then
           (let m1 = m\<lparr>repoPanel := RepositoryPanel_MoveDown (repoPanel m)\<rparr>;
                m2 = m1\<lparr>currentRepoIndex := GetSelected m1\<rparr>
            in if currentRepoIndex m2 < int (length (repositories m2)) then
                 (case index_at (repositories m2) (currentRepoIndex m2) of
                    None \<Rightarrow> Panics
                  | Some repo \<Rightarrow>
                      Returns (loadSnapshotsWithMessage
                        (m2\<lparr>metricsPanel := SetRepository (Some repo) (metricsPanel m2)\<rparr>)))
               else Returns (loadSnapshotsWithMessage m2))
         else if activePanel m = PanelSnapshots then
           Returns (logSelectedSnapshot
                      (m\<lparr>snapPanel := SnapshotPanel_MoveDown (snapPanel m)\<rparr>), NoCmd)
         else Returns (m, NoCmd))
      else if key = ''k'' \<or> key = ''up'' then
        (if activePanel m = PanelRepositories then
           (let m1 = m\<lparr>repoPanel := RepositoryPanel_MoveUp (repoPanel m)\<rparr>;
                m2 = m1\<lparr>currentRepoIndex := GetSelected m1\<rparr>
            in if currentRepoIndex m2 < int (length (repositories m2)) then
                 (case index_at (repositories m2) (currentRepoIndex m2) of
                    None \<Rightarrow> Panics
                  | Some repo \<Rightarrow>
                      Returns (loadSnapshotsWithMessage
                        (m2\<lparr>metricsPanel := SetRepository (Some repo) (metricsPanel m2)\<rparr>)))
               else Returns (loadSnapshotsWithMessage m2))
         else if activePanel m = PanelSnapshots then
           Returns (logSelectedSnapshot
                      (m\<lparr>snapPanel := SnapshotPanel_MoveUp (snapPanel m)\<rparr>), NoCmd)
         else Returns (m, NoCmd))
      else if key = ''enter'' then
        (if activePanel m = PanelRepositories then Returns (loadSnapshotsWithMessage m)
         else if activePanel m = PanelSnapshots then
           (case SnapshotPanel_GetSelected (snapPanel m) of
              Some selectedSnapshot \<Rightarrow>
                (let fb = FileBrowser_SetSize ((m_width m * 2) sdiv 3) ((m_height m * 2) sdiv 3)
                            (NewFileBrowser (Some selectedSnapshot));
                     m1 = m\<lparr>fileBrowser := Some fb, showFileBrowser := True\<rparr>
                 in Returns (log_info ''Browsing snapshot %s...''
                               [ArgStr (snap_ShortID selectedSnapshot)] m1,
                             LoadFiles (currentRepoIndex m1)))
            | None \<Rightarrow> Returns (m, NoCmd))
         else Returns (m, NoCmd))
      else if key = ''a'' then
        (if activePanel m = PanelRepositories
         then Returns (log_info ''Add new repository'' [] (m\<lparr>showRepoForm := True\<rparr>), NoCmd)
         else Returns (m, NoCmd))
      else if key = ''s'' then
        (if activePanel m = PanelRepositories
         then Returns (log_info ''Scanning for repositories...'' [] m, ScanForRepositories)
         else Returns (m, NoCmd))
      else if key = ''r'' then
        (let m1 = log_info ''Refreshing repositories and snapshots...'' [] m;
             m2 = log_dimmed ''Reloading configuration and rescanning repository stats'' [] m1
         in case loadSnapshotsWithMessage m2 of
              (m3, cmd) \<Rightarrow> Returns (m3, Batch [LoadRepositories, cmd]))
      else if key = ''C'' then
        (if currentRepoIndex m \<ge> int (length (repositories m)) then
           Returns (log_warning ''No repository selected for cache cleanup'' [] m, NoCmd)
         else case index_at (repositories m) (currentRepoIndex m) of
           None \<Rightarrow> Panics
         | Some repo \<Rightarrow>
             (let m1 = log_info ''Running cache cleanup for '%s'...'' [ArgStr (repo_Name repo)] m;
                  m2 = log_dimmed ''Command: restic -r %s cache --cleanup''
                         [ArgStr (repo_Path repo)] m1
              in Returns (m2, CleanupCache (currentRepoIndex m2))))
      else if key = ''u'' then
        (if currentRepoIndex m \<ge> int (length (repositories m)) then
           Returns (log_warning ''No repository selected for unlock'' [] m, NoCmd)
         else case index_at (repositories m) (currentRepoIndex m) of
           None \<Rightarrow> Panics
         | Some repo \<Rightarrow>
             (let m1 = log_info ''Unlocking repository '%s'...'' [ArgStr (repo_Name repo)] m;
                  m2 = log_dimmed ''Removing stale locks from: %s'' [ArgStr (repo_Path repo)] m1;
                  m3 = log_dimmed ''Command: restic -r %s unlock'' [ArgStr (repo_Path repo)] m2
              in Returns (m3, UnlockRepository (currentRepoIndex m3))))
      else if key = ''x'' then
        (if currentRepoIndex m \<ge> int (length (repositories m)) then
           Returns (log_warning ''No repository selected to remove'' [] m, NoCmd)
         else case index_at (repositories m) (currentRepoIndex m) of
           None \<Rightarrow> Panics
         | Some repo \<Rightarrow>
             (let dialog = ConfirmationDialog_SetSize
                             ((m_width m * 3) sdiv 4) ((m_height m * 3) sdiv 4)
                             (NewConfirmationDialog ''REMOVE REPOSITORY''
                                (''Remove '' @ [CHR 0x27] @ repo_Name repo @ [CHR 0x27]
                                 @ '' from LazyRestic?'' @ nl @ nl @ ''Path: '' @ repo_Path repo
                                 @ nl @ nl
                                 @ ''This will only remove it from the LazyRestic configuration.''
                                 @ nl
                                 @ ''The repository files will NOT be deleted from disk.'')
                                ''yes'');
                  m1 = m\<lparr>repoToRemove := repo_Name repo, removeConfirmDialog := Some dialog,
                         showRemoveConfirm := True\<rparr>;
                  m2 = log_success separator [] m1;
                  m3 = log_info ''Removal requested for repository: %s''
                         [ArgStr (repo_Name repo)] m2;
                  m4 = log_dimmed ''Path: %s'' [ArgStr (repo_Path repo)] m3;
                  m5 = log_warning ''Type 'yes' to confirm removal from configuration'' [] m4
              in Returns (log_success separator [] m5, NoCmd)))
      else if key = ''b'' then
        (if \<not> backupInProgress m \<and> length (repositories m) > 0 then
           Returns (m\<lparr>showBackupForm := True\<rparr>, NoCmd)
         else if backupInProgress m then
           Returns (log_warning ''Backup already in progress'' [] m, NoCmd)
         else Returns (log_warning ''No repository selected'' [] m, NoCmd))
      else if key = ''R'' then
        (let selectedSnapshot = SnapshotPanel_GetSelected (snapPanel m) in
         if \<not> restoreInProgress m \<and> selectedSnapshot \<noteq> None then
           Returns (m\<lparr>restoreForm := Some (RestoreForm_SetSize
                                              ((m_width m * 2) sdiv 3) ((m_height m * 2) sdiv 3)
                                              (NewRestoreForm selectedSnapshot)),
                      showRestoreForm := True\<rparr>, NoCmd)
         else if restoreInProgress m then
           Returns (log_warning ''Restore already in progress'' [] m, NoCmd)
         else Returns (log_warning ''No snapshot selected'' [] m, NoCmd))
      else if key = ''/'' then
        (if activePanel m = PanelSnapshots then
           Returns (log_info ''Filter mode: type to search, Enter to confirm, Esc to cancel'' []
                      (m\<lparr>filterInputActive := True, filterInputText := []\<rparr>), NoCmd)
         else Returns (m, NoCmd))
      else if key = ''esc'' \<or> key = ''c'' then
        (if activePanel m = PanelSnapshots \<and> IsFilterActive (snapPanel m) then
           Returns (log_info ''Filter cleared'' []
                      (m\<lparr>snapPanel := ClearFilter (snapPanel m)\<rparr>), NoCmd)
         else Returns (m, NoCmd))
      else Returns (m, NoCmd))"

text \<open>
  The key handler: the modal blocks in the order in which \<open>Update\<close> tests them, then the
  keys of the main view.
\<close>

definition update_key :: "library \<Rightarrow> Model \<Rightarrow> string \<Rightarrow> (Model \<times> Cmd) result" where
  "update_key lib m key =
     (if showHelp m then key_help m key
      else if showBackupForm m then key_backup_form lib m key
      else if showRestoreForm m then key_restore_form lib m key
      else if filterInputActive m then key_filter_input m key
      else
        (case (case fileBrowser m of
                 Some fb \<Rightarrow> (if showFileBrowser m then key_file_browser lib m fb key else None)
               | None \<Rightarrow> None) of
           Some r \<Rightarrow> r
         | None \<Rightarrow>
        (case (if showFoundRepos m then key_found_repos m key else None) of
           Some r \<Rightarrow> r
         | None \<Rightarrow>
        (case (if showRemoveConfirm m then removeConfirmDialog m else None) of
           Some dialog \<Rightarrow> key_remove_confirm lib m dialog key
         | None \<Rightarrow>
        (if showRepoForm m \<and> repoForm m \<noteq> None then NotModelled
         else key_main m key)))))"

definition Update :: "library \<Rightarrow> Model \<Rightarrow> Msg \<Rightarrow> (Model \<times> Cmd) result" where
  "Update lib m msg =
     (case msg of
        WindowSizeMsg w h \<Rightarrow> NotModelled
      | RepositoriesLoadedMsg repos \<Rightarrow> on_RepositoriesLoaded repos m
      | SnapshotsLoadedMsg snaps err filteredCount cmdLog \<Rightarrow>
          on_SnapshotsLoaded snaps err filteredCount cmdLog m
      | FilesLoadedMsg files err \<Rightarrow> on_FilesLoaded files err m
      | BackupProgressMsg progress updates \<Rightarrow> on_BackupProgress progress updates m
      | BackupSummaryMsg summary err \<Rightarrow> on_BackupSummary summary err m
      | RestoreProgressMsg progress updates \<Rightarrow> on_RestoreProgress progress updates m
      | RestoreSummaryMsg summary err \<Rightarrow> on_RestoreSummary summary err m
      | ForgetDryRunMsg results policy err \<Rightarrow> on_ForgetDryRun results policy err m
      | ForgetCompleteMsg err \<Rightarrow> on_ForgetComplete err m
      | PruneDryRunMsg output err \<Rightarrow> on_PruneDryRun output err m
      | PruneCompleteMsg err \<Rightarrow> on_PruneComplete err m
      | ScannedReposMsg found \<Rightarrow> on_ScannedRepos found m
      | CacheCleanupMsg output err \<Rightarrow> on_CacheCleanup output err m
      | UnlockMsg output err \<Rightarrow> on_Unlock output err m
      | RepoRemovedMsg repoName err \<Rightarrow> on_RepoRemoved repoName err m
      | KeyMsg key \<Rightarrow> update_key lib m key)"

subsection \<open>Reading results, and a session's messages through the event loop\<close>

definition cmd_of :: "(Model \<times> Cmd) result \<Rightarrow> Cmd option" where
  "cmd_of r = (case r of Returns (m, cmd) \<Rightarrow> Some cmd | Panics \<Rightarrow> None | NotModelled \<Rightarrow> None)"


text \<open>
  The event loop on the messages of one backup session: the listener receives from the
  channel, \<open>Update\<close> handles what the listener returns, and the loop listens again for as
  long as \<open>Update\<close> answers with the command to listen on the rest of the channel. The
  result is the model at the end and the last message the listener returned.
\<close>

fun drive_backup :: "library \<Rightarrow> Model \<Rightarrow> BackupMessage chan \<Rightarrow> (Model \<times> Msg) result" where
  "drive_backup lib m [] =
     (case Update lib m (waitForBackupUpdate []) of
        Returns (m', cmd) \<Rightarrow> Returns (m', waitForBackupUpdate [])
      | Panics \<Rightarrow> Panics
      | NotModelled \<Rightarrow> NotModelled)"
| "drive_backup lib m (x # rest) =
     (case Update lib m (waitForBackupUpdate (x # rest)) of
        Returns (m', cmd) \<Rightarrow>
          (if cmd = ListenForBackupUpdates rest then drive_backup lib m' rest
           else Returns (m', waitForBackupUpdate (x # rest)))
      | Panics \<Rightarrow> Panics
      | NotModelled \<Rightarrow> NotModelled)"

fun drive_restore :: "library \<Rightarrow> Model \<Rightarrow> RestoreMessage chan \<Rightarrow> (Model \<times> Msg) result" where
  "drive_restore lib m [] =
     (case Update lib m (waitForRestoreUpdate []) of
        Returns (m', cmd) \<Rightarrow> Returns (m', waitForRestoreUpdate [])
      | Panics \<Rightarrow> Panics
      | NotModelled \<Rightarrow> NotModelled)"
| "drive_restore lib m (x # rest) =
     (case Update lib m (waitForRestoreUpdate (x # rest)) of
        Returns (m', cmd) \<Rightarrow>
          (if cmd = ListenForRestoreUpdates rest then drive_restore lib m' rest
           else Returns (m', waitForRestoreUpdate (x # rest)))
      | Panics \<Rightarrow> Panics
      | NotModelled \<Rightarrow> NotModelled)"

text \<open>The main view: no help screen, form, filter prompt, browser, list or dialog is up.\<close>

definition main_view :: "Model \<Rightarrow> bool" where
  "main_view m =
     (\<not> showHelp m \<and> \<not> showBackupForm m \<and> \<not> showRestoreForm m \<and> \<not> filterInputActive m
      \<and> \<not> showFileBrowser m \<and> \<not> showFoundRepos m \<and> \<not> showRemoveConfirm m
      \<and> \<not> showRepoForm m)"

text \<open>
  The event loop on a list of messages: each is handled by \<open>Update\<close>, the view is drawn,
  and the command that \<open>Update\<close> returned is noted. The result is the model at the end
  and the commands in order.
\<close>

fun run_msgs :: "library \<Rightarrow> Model \<Rightarrow> Msg list \<Rightarrow> (Model \<times> Cmd list) result" where
  "run_msgs lib m [] = Returns (m, [])"
| "run_msgs lib m (msg # msgs) =
     (case Update lib m msg of
        Returns (m', cmd) \<Rightarrow>
          (case run_msgs lib (View_effect m') msgs of
             Returns (m'', cmds) \<Rightarrow> Returns (m'', cmd # cmds)
           | Panics \<Rightarrow> Panics
           | NotModelled \<Rightarrow> NotModelled)
      | Panics \<Rightarrow> Panics
      | NotModelled \<Rightarrow> NotModelled)"

definition cmds_of :: "(Model \<times> Cmd list) result \<Rightarrow> Cmd list option" where
  "cmds_of r = (case r of Returns (m, cmds) \<Rightarrow> Some cmds | Panics \<Rightarrow> None | NotModelled \<Rightarrow> None)"



section \<open>Results about the confirmation dialog\<close>


section \<open>Results about the scrolling viewport\<close>

lemma visibleCapacity_pos: "1 \<le> visibleCapacity p"
  by (simp add: visibleCapacity_def)

lemma MoveUp_in_window: "in_window p \<Longrightarrow> in_window (SnapshotPanel_MoveUp p)"
  using visibleCapacity_pos [of p]
  by (auto simp: in_window_def SnapshotPanel_MoveUp_def Let_def visibleCapacity_def)

lemma MoveDown_in_window: "in_window p \<Longrightarrow> in_window (SnapshotPanel_MoveDown p)"
  by (auto simp: in_window_def SnapshotPanel_MoveDown_def Let_def visibleCapacity_def)

lemma step_move_in_window: "in_window p \<Longrightarrow> in_window (step_move m p)"
  by (cases m) (simp_all add: MoveUp_in_window MoveDown_in_window)

lemma run_moves_in_window: "in_window p \<Longrightarrow> in_window (run_moves ms p)"
  by (induction ms arbitrary: p) (simp_all add: step_move_in_window)

lemma MoveDown_offset:
  "in_window p \<Longrightarrow>
   scrollOffset (SnapshotPanel_MoveDown p) =
     (if selected p < int (length (filteredSnapshots p)) - 1
         \<and> selected p + 1 = scrollOffset p + visibleCapacity p
      then scrollOffset p + 1 else scrollOffset p)"
  by (auto simp: in_window_def SnapshotPanel_MoveDown_def Let_def visibleCapacity_def)

lemma MoveUp_offset:
  "in_window p \<Longrightarrow>
   scrollOffset (SnapshotPanel_MoveUp p) =
     (if 0 < selected p \<and> selected p = scrollOffset p
      then scrollOffset p - 1 else scrollOffset p)"
  by (auto simp: in_window_def SnapshotPanel_MoveUp_def Let_def visibleCapacity_def)

text \<open>
  C9. Starting from a state whose selected index lies in the visible window
  [offset, offset + capacity), every single move up or down, and so every sequence of
  moves, keeps the selection in the window; a move down from the last visible row shifts
  the offset by exactly one, a move up from the first visible row shifts it back by
  exactly one, and every other move leaves the offset alone.
\<close>

theorem scroll_window_containment:
  assumes "in_window p"
  shows "in_window (SnapshotPanel_MoveUp p)
     \<and> in_window (SnapshotPanel_MoveDown p)
     \<and> in_window (run_moves ms p)
     \<and> scrollOffset (SnapshotPanel_MoveDown p) =
         (if selected p < int (length (filteredSnapshots p)) - 1
             \<and> selected p + 1 = scrollOffset p + visibleCapacity p
          then scrollOffset p + 1 else scrollOffset p)
     \<and> scrollOffset (SnapshotPanel_MoveUp p) =
         (if 0 < selected p \<and> selected p = scrollOffset p
          then scrollOffset p - 1 else scrollOffset p)"
  using assms MoveUp_in_window MoveDown_in_window run_moves_in_window
    MoveDown_offset MoveUp_offset by blast

lemma replicate_numeral_unfold: "replicate (numeral k) x = x # replicate (pred_numeral k) x"
  by (simp add: numeral_eq_Suc)

theorem scroll_window_containment_witness:
  "in_window (SnapshotPanel_SetSize 40 9
       (NewSnapshotPanel\<lparr>filteredSnapshots := replicate 10
          \<lparr>snap_ID = ''abc123'', snap_Time = 0, snap_Hostname = ''web1'',
           snap_Username = ''u'', snap_Paths = [''/home''], snap_Tags = [],
           snap_ShortID = ''abc''\<rparr>\<rparr>))
   \<and> in_window (run_moves (replicate 9 Down) (SnapshotPanel_SetSize 40 9
       (NewSnapshotPanel\<lparr>filteredSnapshots := replicate 10
          \<lparr>snap_ID = ''abc123'', snap_Time = 0, snap_Hostname = ''web1'',
           snap_Username = ''u'', snap_Paths = [''/home''], snap_Tags = [],
           snap_ShortID = ''abc''\<rparr>\<rparr>)))
   \<and> selected (run_moves (replicate 9 Down) (SnapshotPanel_SetSize 40 9
       (NewSnapshotPanel\<lparr>filteredSnapshots := replicate 10
          \<lparr>snap_ID = ''abc123'', snap_Time = 0, snap_Hostname = ''web1'',
           snap_Username = ''u'', snap_Paths = [''/home''], snap_Tags = [],
           snap_ShortID = ''abc''\<rparr>\<rparr>))) = 9
   \<and> scrollOffset (run_moves (replicate 9 Down) (SnapshotPanel_SetSize 40 9
       (NewSnapshotPanel\<lparr>filteredSnapshots := replicate 10
          \<lparr>snap_ID = ''abc123'', snap_Time = 0, snap_Hostname = ''web1'',
           snap_Username = ''u'', snap_Paths = [''/home''], snap_Tags = [],
           snap_ShortID = ''abc''\<rparr>\<rparr>))) = 7"
proof -
  let ?p = "SnapshotPanel_SetSize 40 9
       (NewSnapshotPanel\<lparr>filteredSnapshots := replicate 10
          \<lparr>snap_ID = ''abc123'', snap_Time = 0, snap_Hostname = ''web1'',
           snap_Username = ''u'', snap_Paths = [''/home''], snap_Tags = [],
           snap_ShortID = ''abc''\<rparr>\<rparr>)"
  have h: "in_window ?p"
    by (simp add: in_window_def visibleCapacity_def SnapshotPanel_SetSize_def NewSnapshotPanel_def)
  have w: "in_window (run_moves (replicate 9 Down) ?p)"
    using scroll_window_containment [OF h, of "replicate 9 Down"] by simp
  have s: "selected (run_moves (replicate 9 Down) ?p) = 9
           \<and> scrollOffset (run_moves (replicate 9 Down) ?p) = 7"
    by (simp add: replicate_numeral_unfold SnapshotPanel_MoveDown_def Let_def
        SnapshotPanel_SetSize_def NewSnapshotPanel_def)
  show ?thesis using h w s by simp
qed

section \<open>Results about the paged viewport\<close>

lemma getTotalPages_empty: "fb_files fb = [] \<Longrightarrow> getTotalPages fb = Some 1"
  by (simp add: getTotalPages_def)

lemma getTotalPages_50:
  "fb_pageSize fb = 50 \<Longrightarrow>
   getTotalPages fb =
     Some (if fb_files fb = [] then 1 else (int (length (fb_files fb)) + 49) div 50)"
  by (simp add: getTotalPages_def go_div_def sgn_if signed_divide_int_def add.commute)

lemma getTotalPages_50_pos:
  "fb_pageSize fb = 50 \<Longrightarrow> \<exists>t. getTotalPages fb = Some t \<and> 1 \<le> t"
  by (cases "fb_files fb") (auto simp: getTotalPages_50)

lemma getTotalPages_cong:
  "length (fb_files a) = length (fb_files b) \<Longrightarrow> fb_pageSize a = fb_pageSize b \<Longrightarrow>
   getTotalPages a = getTotalPages b"
  by (simp add: getTotalPages_def)

lemma paging_ok_New: "paging_ok (NewFileBrowser s)"
  by (simp add: paging_ok_def NewFileBrowser_def getTotalPages_def)

lemma paging_ok_iff:
  "paging_ok fb \<longleftrightarrow>
     fb_pageSize fb = 50 \<and> 0 \<le> fb_currentPage fb \<and> fb_currentPage fb < pages fb"
  by (auto simp: paging_ok_def getTotalPages_50 pages_def)

lemma pages_pos: "1 \<le> pages fb"
  by (cases "fb_files fb") (auto simp: pages_def)

lemma SetFiles_ok:
  assumes "fb_pageSize fb = 50"
  shows "\<exists>fb'. FileBrowser_SetFiles files fb = Some fb' \<and> paging_ok fb'
           \<and> fb_currentPage fb' = 0 \<and> fb_files fb' = files"
proof -
  let ?fb1 = "fb\<lparr>fb_files := files, fb_currentPage := 0\<rparr>"
  have ps: "fb_pageSize ?fb1 = 50" using assms by simp
  have t: "getTotalPages ?fb1 = Some (pages ?fb1)"
    using getTotalPages_50 [OF ps] by (simp add: pages_def)
  have p1: "1 \<le> pages ?fb1" by (rule pages_pos)
  have pg: "\<exists>fs. getFilesOnCurrentPage ?fb1 = Some fs"
    using assms by (simp add: getFilesOnCurrentPage_def go_slice_def Let_def)
  then obtain fs where fs: "getFilesOnCurrentPage ?fb1 = Some fs" by blast
  define sel where "sel = (if fb_selected fb \<ge> int (length fs) \<and> int (length fs) > 0
                           then int (length fs) - 1 else fb_selected fb)"
  define sel' where "sel' = (if sel < 0 then 0 else sel)"
  have r: "FileBrowser_SetFiles files fb = Some (?fb1\<lparr>fb_selected := sel'\<rparr>)"
    using t p1 fs by (auto simp: FileBrowser_SetFiles_def Let_def sel_def sel'_def)
  have "pages (?fb1\<lparr>fb_selected := sel'\<rparr>) = pages ?fb1" by (simp add: pages_def)
  then have ok: "paging_ok (?fb1\<lparr>fb_selected := sel'\<rparr>)"
    using p1 assms by (simp add: paging_ok_iff)
  show ?thesis using r ok by simp
qed

lemma NextPage_ok:
  assumes "paging_ok fb"
  shows "\<exists>fb'. NextPage fb = Some fb' \<and> paging_ok fb' \<and> fb_files fb' = fb_files fb"
proof -
  have ps: "fb_pageSize fb = 50" using assms by (auto simp: paging_ok_iff split: if_splits)
  have t: "getTotalPages fb = Some (pages fb)" using getTotalPages_50 [OF ps] by (simp add: pages_def)
  show ?thesis
  proof (cases "fb_currentPage fb < pages fb - 1")
    case True
    then have "NextPage fb = Some (fb\<lparr>fb_currentPage := fb_currentPage fb + 1, fb_selected := 0\<rparr>)"
      using t by (simp add: NextPage_def)
    moreover have "paging_ok (fb\<lparr>fb_currentPage := fb_currentPage fb + 1, fb_selected := 0\<rparr>)"
      using assms True by (auto simp: paging_ok_iff pages_def split: if_splits)
    ultimately show ?thesis by simp
  next
    case False
    then have "NextPage fb = Some fb" using t by (simp add: NextPage_def)
    then show ?thesis using assms by simp
  qed
qed

lemma PrevPage_ok: "paging_ok fb \<Longrightarrow> paging_ok (PrevPage fb)"
  by (auto simp: PrevPage_def paging_ok_iff pages_def split: if_splits)

lemma fb_step_ok:
  assumes "paging_ok fb"
  shows "\<exists>fb'. fb_step x fb = Some fb' \<and> paging_ok fb'"
proof (cases x)
  case (OpSetFiles files)
  then show ?thesis using SetFiles_ok [of fb files] assms by (auto simp: paging_ok_iff)
next
  case (OpSetSize w h)
  then show ?thesis using assms by (auto simp: paging_ok_iff pages_def FileBrowser_SetSize_def split: if_splits)
next
  case OpNextPage
  then show ?thesis using NextPage_ok [OF assms] by auto
next
  case OpPrevPage
  then show ?thesis using PrevPage_ok [OF assms] by simp
next
  case OpMoveUp
  then show ?thesis using assms by (auto simp: paging_ok_iff pages_def FileBrowser_MoveUp_def split: if_splits)
next
  case OpMoveDown
  then show ?thesis using assms by (auto simp: paging_ok_iff pages_def FileBrowser_MoveDown_def split: if_splits)
next
  case OpToggleSelection
  then show ?thesis using assms by (auto simp: paging_ok_iff pages_def ToggleSelection_def Let_def split: if_splits)
next
  case OpClearSelection
  then show ?thesis using assms by (auto simp: paging_ok_iff pages_def ClearSelection_def split: if_splits)
next
  case (OpSetCurrentPath path)
  then show ?thesis using assms by (auto simp: paging_ok_iff pages_def SetCurrentPath_def split: if_splits)
next
  case OpEnterDirectory
  then show ?thesis using assms
    by (auto simp: paging_ok_iff pages_def EnterDirectory_def split: option.splits split: if_splits)
qed

lemma fb_run_ok:
  "paging_ok fb \<Longrightarrow> \<exists>fb'. fb_run xs fb = Some fb' \<and> paging_ok fb'"
proof (induction xs arbitrary: fb)
  case Nil
  then show ?case by simp
next
  case (Cons x xs)
  obtain fb1 where s: "fb_step x fb = Some fb1" "paging_ok fb1"
    using fb_step_ok [OF Cons.prems] by blast
  then show ?case using Cons.IH [OF s(2)] by simp
qed

lemma paging_ok_empty: "paging_ok fb \<Longrightarrow> fb_files fb = [] \<Longrightarrow> fb_currentPage fb = 0"
  by (auto simp: paging_ok_def getTotalPages_def)

lemma NextPage_last:
  "getTotalPages fb = Some t \<Longrightarrow> fb_currentPage fb = t - 1 \<Longrightarrow> NextPage fb = Some fb"
  by (simp add: NextPage_def)

lemma pages_101: "fb_pageSize fb = 50 \<Longrightarrow> length (fb_files fb) = 101 \<Longrightarrow> getTotalPages fb = Some 3"
  by (auto simp: getTotalPages_50)

text \<open>
  C8. A file browser with no files has exactly one page; in every state reached from a new
  file browser the page index is non-negative and below the page count, so it is 0
  whenever there are no files; 101 files at 50 to a page make 3 pages; and NextPage on the
  last page changes nothing.
\<close>

theorem pagination_clamp:
  "(fb_files fb = [] \<longrightarrow> getTotalPages fb = Some 1)
   \<and> (\<exists>fb'. fb_run ops (NewFileBrowser s) = Some fb'
          \<and> 0 \<le> fb_currentPage fb'
          \<and> (\<exists>n. getTotalPages fb' = Some n \<and> fb_currentPage fb' < n)
          \<and> (fb_files fb' = [] \<longrightarrow> fb_currentPage fb' = 0))
   \<and> (fb_pageSize fb = 50 \<and> length (fb_files fb) = 101 \<longrightarrow> getTotalPages fb = Some 3)
   \<and> (getTotalPages fb = Some t \<and> fb_currentPage fb = t - 1 \<longrightarrow> NextPage fb = Some fb)"
proof -
  obtain fb' where r: "fb_run ops (NewFileBrowser s) = Some fb'" and ok: "paging_ok fb'"
    using fb_run_ok [OF paging_ok_New] by blast
  have ps: "fb_pageSize fb' = 50" using ok by (simp add: paging_ok_iff)
  have a: "0 \<le> fb_currentPage fb'" using ok by (simp add: paging_ok_iff)
  have b: "\<exists>n. getTotalPages fb' = Some n \<and> fb_currentPage fb' < n"
    using ok by (auto simp: paging_ok_def split: option.splits)
  have c: "fb_files fb' = [] \<longrightarrow> fb_currentPage fb' = 0"
    using ok paging_ok_empty by blast
  have two: "\<exists>fb'. fb_run ops (NewFileBrowser s) = Some fb'
          \<and> 0 \<le> fb_currentPage fb'
          \<and> (\<exists>n. getTotalPages fb' = Some n \<and> fb_currentPage fb' < n)
          \<and> (fb_files fb' = [] \<longrightarrow> fb_currentPage fb' = 0)"
    using r a b c by blast
  show ?thesis
    using two getTotalPages_empty pages_101 NextPage_last by blast
qed

theorem pagination_clamp_witness:
  "getTotalPages ((NewFileBrowser None)\<lparr>fb_files := replicate 101
        \<lparr>node_MessageType = ''node'', node_Name = ''f'', node_Type = ''file'',
         node_Path = ''/f'', node_Size = 1, node_Selected = False\<rparr>,
        fb_currentPage := 2\<rparr>) = Some 3
   \<and> NextPage ((NewFileBrowser None)\<lparr>fb_files := replicate 101
        \<lparr>node_MessageType = ''node'', node_Name = ''f'', node_Type = ''file'',
         node_Path = ''/f'', node_Size = 1, node_Selected = False\<rparr>,
        fb_currentPage := 2\<rparr>)
      = Some ((NewFileBrowser None)\<lparr>fb_files := replicate 101
        \<lparr>node_MessageType = ''node'', node_Name = ''f'', node_Type = ''file'',
         node_Path = ''/f'', node_Size = 1, node_Selected = False\<rparr>,
        fb_currentPage := 2\<rparr>)
   \<and> getTotalPages (NewFileBrowser None) = Some 1
   \<and> NextPage (NewFileBrowser None) = Some (NewFileBrowser None)"
proof -
  let ?fb = "(NewFileBrowser None)\<lparr>fb_files := replicate 101
        \<lparr>node_MessageType = ''node'', node_Name = ''f'', node_Type = ''file'',
         node_Path = ''/f'', node_Size = 1, node_Selected = False\<rparr>,
        fb_currentPage := 2\<rparr>"
  have h1: "fb_pageSize ?fb = 50 \<and> length (fb_files ?fb) = 101"
    by (simp add: NewFileBrowser_def)
  have t3: "getTotalPages ?fb = Some 3"
    using pagination_clamp [of ?fb "[]" None 3] h1 by blast
  have h2: "getTotalPages ?fb = Some 3 \<and> fb_currentPage ?fb = 3 - 1"
    using t3 by simp
  have np: "NextPage ?fb = Some ?fb"
    using pagination_clamp [of ?fb "[]" None 3] h2 by blast
  have h3: "fb_files (NewFileBrowser None) = []"
    by (simp add: NewFileBrowser_def)
  have t1: "getTotalPages (NewFileBrowser None) = Some 1"
    using pagination_clamp [of "NewFileBrowser None" "[]" None 1] h3 by blast
  have h4: "getTotalPages (NewFileBrowser None) = Some 1
            \<and> fb_currentPage (NewFileBrowser None) = 1 - 1"
    using t1 by (simp add: NewFileBrowser_def)
  have n0: "NextPage (NewFileBrowser None) = Some (NewFileBrowser None)"
    using pagination_clamp [of "NewFileBrowser None" "[]" None 1] h4 by blast
  show ?thesis using t3 np t1 n0 by simp
qed

section \<open>Results about the snapshot filter\<close>

lemma HasPrefix_iff: "HasPrefix s sub \<longleftrightarrow> (\<exists>suf. s = sub @ suf)"
  by (induction s sub rule: HasPrefix.induct) auto

lemma Contains_iff: "Contains s sub \<longleftrightarrow> (\<exists>pre suf. s = pre @ sub @ suf)"
proof (induction s)
  case Nil
  then show ?case by auto
next
  case (Cons c cs)
  show ?case
  proof
    assume "Contains (c # cs) sub"
    then consider "HasPrefix (c # cs) sub" | "Contains cs sub" by auto
    then show "\<exists>pre suf. c # cs = pre @ sub @ suf"
    proof cases
      case 1
      then obtain suf where "c # cs = sub @ suf" using HasPrefix_iff by blast
      then have "c # cs = [] @ sub @ suf" by simp
      then show ?thesis by blast
    next
      case 2
      then obtain pre suf where "cs = pre @ sub @ suf" using Cons.IH by blast
      then have "c # cs = (c # pre) @ sub @ suf" by simp
      then show ?thesis by blast
    qed
  next
    assume "\<exists>pre suf. c # cs = pre @ sub @ suf"
    then obtain pre suf where e: "c # cs = pre @ sub @ suf" by blast
    show "Contains (c # cs) sub"
    proof (cases pre)
      case Nil
      then have "HasPrefix (c # cs) sub" using e HasPrefix_iff by auto
      then show ?thesis by simp
    next
      case (Cons d pre')
      then have "cs = pre' @ sub @ suf" using e by simp
      then have "Contains cs sub" using Cons.IH by blast
      then show ?thesis by simp
    qed
  qed
qed








section \<open>Results about the streaming sessions\<close>





















section \<open>Results about credentials\<close>










section \<open>Results about the channel listeners\<close>

lemma wait_backup_closed: "waitForBackupUpdate [] = BackupSummaryMsg None None"
  by (simp add: waitForBackupUpdate_def)

lemma wait_restore_closed: "waitForRestoreUpdate [] = RestoreSummaryMsg None None"
  by (simp add: waitForRestoreUpdate_def)

lemma wait_backup_progress:
  "\<not> is_terminal x \<Longrightarrow>
   waitForBackupUpdate (x # rest) = BackupProgressMsg (Progress x) (Some rest)"
  by (auto simp: waitForBackupUpdate_def is_terminal_def)

lemma wait_restore_progress:
  "\<not> is_terminal x \<Longrightarrow>
   waitForRestoreUpdate (x # rest) = RestoreProgressMsg (Progress x) (Some rest)"
  by (auto simp: waitForRestoreUpdate_def is_terminal_def)

lemma Update_BackupProgress:
  "\<exists>m'. Update lib m (BackupProgressMsg p (Some rest)) = Returns (m', ListenForBackupUpdates rest)"
  by (simp add: Update_def on_BackupProgress_def Let_def listenForBackupUpdates_def)

lemma Update_RestoreProgress:
  "\<exists>m'. Update lib m (RestoreProgressMsg p (Some rest)) = Returns (m', ListenForRestoreUpdates rest)"
  by (simp add: Update_def on_RestoreProgress_def Let_def listenForRestoreUpdates_def)

lemma log_keeps_flags [simp]:
  "backupInProgress (log_info a b m) = backupInProgress m"
  "backupInProgress (log_success a b m) = backupInProgress m"
  "backupInProgress (log_error a b m) = backupInProgress m"
  "restoreInProgress (log_info a b m) = restoreInProgress m"
  "restoreInProgress (log_success a b m) = restoreInProgress m"
  "restoreInProgress (log_error a b m) = restoreInProgress m"
  "currentBackupProgress (log_info a b m) = currentBackupProgress m"
  "currentBackupProgress (log_success a b m) = currentBackupProgress m"
  "currentRestoreProgress (log_success a b m) = currentRestoreProgress m"
  by (simp_all add: log_info_def log_success_def log_error_def)

lemma Update_BackupClosed:
  "\<exists>m'. Update lib m (BackupSummaryMsg None None) = Returns (m', LoadSnapshots (currentRepoIndex m))
        \<and> \<not> backupInProgress m' \<and> currentBackupProgress m' = None"
  by (simp add: Update_def on_BackupSummary_def Let_def loadSnapshotsWithMessage_def
      log_info_def log_success_def)

lemma Update_RestoreClosed:
  "\<exists>m'. Update lib m (RestoreSummaryMsg None None) = Returns (m', NoCmd)
        \<and> \<not> restoreInProgress m' \<and> currentRestoreProgress m' = None"
  by (simp add: Update_def on_RestoreSummary_def Let_def log_success_def)

lemma drive_backup_closed:
  "list_all (\<lambda>x. \<not> is_terminal x) ch \<Longrightarrow>
   \<exists>m'. drive_backup lib m ch = Returns (m', BackupSummaryMsg None None)
        \<and> \<not> backupInProgress m' \<and> currentBackupProgress m' = None"
proof (induction ch arbitrary: m)
  case Nil
  obtain m' where "Update lib m (BackupSummaryMsg None None)
        = Returns (m', LoadSnapshots (currentRepoIndex m))"
      "\<not> backupInProgress m'" "currentBackupProgress m' = None"
    using Update_BackupClosed by blast
  then show ?case by (simp add: wait_backup_closed)
next
  case (Cons x rest)
  then have nt: "\<not> is_terminal x" and r: "list_all (\<lambda>x. \<not> is_terminal x) rest" by simp_all
  obtain m1 where u: "Update lib m (BackupProgressMsg (Progress x) (Some rest))
        = Returns (m1, ListenForBackupUpdates rest)"
    using Update_BackupProgress by blast
  have "drive_backup lib m (x # rest) = drive_backup lib m1 rest"
    using u by (simp add: wait_backup_progress [OF nt])
  then show ?case using Cons.IH [OF r, of m1] by simp
qed

lemma drive_restore_closed:
  "list_all (\<lambda>x. \<not> is_terminal x) ch \<Longrightarrow>
   \<exists>m'. drive_restore lib m ch = Returns (m', RestoreSummaryMsg None None)
        \<and> \<not> restoreInProgress m' \<and> currentRestoreProgress m' = None"
proof (induction ch arbitrary: m)
  case Nil
  obtain m' where "Update lib m (RestoreSummaryMsg None None) = Returns (m', NoCmd)"
      "\<not> restoreInProgress m'" "currentRestoreProgress m' = None"
    using Update_RestoreClosed by blast
  then show ?case by (simp add: wait_restore_closed)
next
  case (Cons x rest)
  then have nt: "\<not> is_terminal x" and r: "list_all (\<lambda>x. \<not> is_terminal x) rest" by simp_all
  obtain m1 where u: "Update lib m (RestoreProgressMsg (Progress x) (Some rest))
        = Returns (m1, ListenForRestoreUpdates rest)"
    using Update_RestoreProgress by blast
  have "drive_restore lib m (x # rest) = drive_restore lib m1 rest"
    using u by (simp add: wait_restore_progress [OF nt])
  then show ?case using Cons.IH [OF r, of m1] by simp
qed

lemma AddLog_new: "\<lparr>log_Level = l, log_Message = t, log_Args = a\<rparr> \<in> set (logs (AddLog l t a p))"
  by (simp add: AddLog_def Let_def)

lemma nth_in_drop:
  assumes "k \<le> i" "i < length xs"
  shows "xs ! i \<in> set (drop k xs)"
proof -
  have "drop k xs ! (i - k) = xs ! (k + (i - k))" using assms by (simp add: nth_drop)
  then have "drop k xs ! (i - k) = xs ! i" using assms by simp
  moreover have "i - k < length (drop k xs)" using assms by simp
  ultimately show ?thesis by (metis nth_mem)
qed

lemma AddLog_keeps_last:
  assumes "logs p \<noteq> []"
  shows "last (logs p) \<in> set (logs (AddLog l t a p))"
proof -
  let ?e = "\<lparr>log_Level = l, log_Message = t, log_Args = a\<rparr>"
  let ?xs = "logs p @ [?e]"
  have i: "last (logs p) = ?xs ! (length (logs p) - 1)"
    using assms by (simp add: last_conv_nth nth_append)
  have k: "length ?xs - 100 \<le> length (logs p) - 1" using assms by (cases "logs p") auto
  have n: "length (logs p) - 1 < length ?xs" by simp
  have d: "last (logs p) \<in> set (drop (length ?xs - 100) ?xs)"
    unfolding i by (rule nth_in_drop [OF k n])
  have m: "last (logs p) \<in> set ?xs" using assms by simp
  have "logs (AddLog l t a p) = (if length ?xs > 100 then drop (length ?xs - 100) ?xs else ?xs)"
    by (simp add: AddLog_def Let_def)
  then show ?thesis using d m by presburger
qed

lemma AddLog_last:
  "last (logs (AddLog l t a p)) = \<lparr>log_Level = l, log_Message = t, log_Args = a\<rparr>"
  by (simp add: AddLog_def Let_def)

lemma AddLog_nonempty: "logs (AddLog l t a p) \<noteq> []"
  by (simp add: AddLog_def Let_def)

lemma backup_closed_ops:
  "\<exists>m'. Update lib m (BackupSummaryMsg None None) = Returns (m', LoadSnapshots (currentRepoIndex m))
     \<and> opsPanel m' = Info ''Loading snapshots...'' []
          (Success ''Backup completed successfully'' [] (ClearBackupProgress (opsPanel m)))"
  by (simp add: Update_def on_BackupSummary_def Let_def loadSnapshotsWithMessage_def
      log_info_def log_success_def)

lemma backup_closed_logged:
  "\<exists>m' c. Update lib m (BackupSummaryMsg None None) = Returns (m', c)
     \<and> \<lparr>log_Level = ''success'', log_Message = ''Backup completed successfully'',
         log_Args = []\<rparr> \<in> set (logs (opsPanel m'))"
proof -
  let ?p = "AddLog ''success'' ''Backup completed successfully'' []
              (ClearBackupProgress (opsPanel m))"
  have k: "last (logs ?p) \<in> set (logs (AddLog ''info'' ''Loading snapshots...'' [] ?p))"
    by (rule AddLog_keeps_last) (rule AddLog_nonempty)
  have l: "last (logs ?p) = \<lparr>log_Level = ''success'',
      log_Message = ''Backup completed successfully'', log_Args = []\<rparr>"
    by (rule AddLog_last)
  obtain m' where u: "Update lib m (BackupSummaryMsg None None)
        = Returns (m', LoadSnapshots (currentRepoIndex m))"
    and o: "opsPanel m' = Info ''Loading snapshots...'' []
          (Success ''Backup completed successfully'' [] (ClearBackupProgress (opsPanel m)))"
    using backup_closed_ops by blast
  have "opsPanel m' = AddLog ''info'' ''Loading snapshots...'' [] ?p"
    unfolding o Info_def Success_def by (rule refl)
  then show ?thesis using u k l by metis
qed

lemma restore_closed_logged:
  "\<exists>m' c. Update lib m (RestoreSummaryMsg None None) = Returns (m', c)
     \<and> \<lparr>log_Level = ''success'', log_Message = ''Restore completed'',
         log_Args = []\<rparr> \<in> set (logs (opsPanel m'))"
proof -
  have "\<exists>m'. Update lib m (RestoreSummaryMsg None None) = Returns (m', NoCmd)
     \<and> opsPanel m' = Success ''Restore completed'' [] (opsPanel m)"
    by (simp add: Update_def on_RestoreSummary_def Let_def log_success_def)
  then obtain m' where u: "Update lib m (RestoreSummaryMsg None None) = Returns (m', NoCmd)"
    and o: "opsPanel m' = Success ''Restore completed'' [] (opsPanel m)" by blast
  have "\<lparr>log_Level = ''success'', log_Message = ''Restore completed'', log_Args = []\<rparr>
      \<in> set (logs (opsPanel m'))"
    unfolding o Success_def by (rule AddLog_new)
  then show ?thesis using u by blast
qed

text \<open>
  C10. When an update channel is closed and no summary and no error has been received
  from it, the listener returns a summary message with no error and no summary; so the
  event loop, after any run of progress messages, ends the operation as completed: the
  in-progress flag is cleared and the log says that the backup or restore completed.
\<close>

theorem closed_channel_reports_success:
  "waitForBackupUpdate [] = BackupSummaryMsg None None
   \<and> waitForRestoreUpdate [] = RestoreSummaryMsg None None
   \<and> (list_all (\<lambda>x. \<not> is_terminal x) bch \<longrightarrow>
        (\<exists>m'. drive_backup lib m bch = Returns (m', BackupSummaryMsg None None)
           \<and> \<not> backupInProgress m' \<and> currentBackupProgress m' = None))
   \<and> (list_all (\<lambda>x. \<not> is_terminal x) rch \<longrightarrow>
        (\<exists>m'. drive_restore lib m rch = Returns (m', RestoreSummaryMsg None None)
           \<and> \<not> restoreInProgress m' \<and> currentRestoreProgress m' = None))
   \<and> (\<exists>m' c. Update lib m (BackupSummaryMsg None None) = Returns (m', c)
         \<and> \<lparr>log_Level = ''success'', log_Message = ''Backup completed successfully'',
             log_Args = []\<rparr> \<in> set (logs (opsPanel m')))
   \<and> (\<exists>m' c. Update lib m (RestoreSummaryMsg None None) = Returns (m', c)
         \<and> \<lparr>log_Level = ''success'', log_Message = ''Restore completed'',
             log_Args = []\<rparr> \<in> set (logs (opsPanel m')))"
  using wait_backup_closed wait_restore_closed drive_backup_closed [of bch lib m]
    drive_restore_closed [of rch lib m] backup_closed_logged [of lib m]
    restore_closed_logged [of lib m]
  by blast

theorem closed_channel_reports_success_witness:
  "list_all (\<lambda>x. \<not> is_terminal x)
      [(\<lparr>Progress = Some \<lparr>bp_MessageType = ''status'', bp_TotalFiles = 2, bp_FilesDone = 1,
          bp_TotalBytes = 10, bp_BytesDone = 5, bp_CurrentFiles = [''/home/a''],
          bp_SecondsElapsed = 1, bp_SecondsRemaining = 1\<rparr>,
        Summary = None, Error = None\<rparr> :: BackupMessage)]
   \<and> (\<exists>m'. drive_backup \<lparr>textinput_Update = (\<lambda>key t. t), path_Dir = (\<lambda>p. p)\<rparr> ((NewModel \<lparr>Repositories = []\<rparr>)\<lparr>backupInProgress := True\<rparr>)
              [\<lparr>Progress = Some \<lparr>bp_MessageType = ''status'', bp_TotalFiles = 2, bp_FilesDone = 1,
          bp_TotalBytes = 10, bp_BytesDone = 5, bp_CurrentFiles = [''/home/a''],
          bp_SecondsElapsed = 1, bp_SecondsRemaining = 1\<rparr>,
        Summary = None, Error = None\<rparr>]
            = Returns (m', BackupSummaryMsg None None)
         \<and> \<not> backupInProgress m' \<and> currentBackupProgress m' = None)
   \<and> (\<exists>m'. drive_restore \<lparr>textinput_Update = (\<lambda>key t. t), path_Dir = (\<lambda>p. p)\<rparr> ((NewModel \<lparr>Repositories = []\<rparr>)\<lparr>backupInProgress := True\<rparr>) []
            = Returns (m', RestoreSummaryMsg None None)
         \<and> \<not> restoreInProgress m' \<and> currentRestoreProgress m' = None)"
proof -
  let ?pm = "\<lparr>Progress = Some \<lparr>bp_MessageType = ''status'', bp_TotalFiles = 2, bp_FilesDone = 1,
          bp_TotalBytes = 10, bp_BytesDone = 5, bp_CurrentFiles = [''/home/a''],
          bp_SecondsElapsed = 1, bp_SecondsRemaining = 1\<rparr>,
        Summary = None, Error = None\<rparr> :: BackupMessage"
  have h: "list_all (\<lambda>x. \<not> is_terminal x) [?pm]"
    by (simp add: is_terminal_def)
  have h2: "list_all (\<lambda>x. \<not> is_terminal x) ([] :: RestoreMessage list)"
    by simp
  note t = closed_channel_reports_success [of "[?pm]"
      "\<lparr>textinput_Update = (\<lambda>key t. t), path_Dir = (\<lambda>p. p)\<rparr>"
      "((NewModel \<lparr>Repositories = []\<rparr>)\<lparr>backupInProgress := True\<rparr>)" "[]"]
  note b = mp [OF conjunct1 [OF conjunct2 [OF conjunct2 [OF t]]] h]
  note r = mp [OF conjunct1 [OF conjunct2 [OF conjunct2 [OF conjunct2 [OF t]]]] h2]
  show ?thesis by (intro conjI h b r)
qed

section \<open>Results about the follow-up actions\<close>

lemma cmd_after_load [simp]:
  "cmd_of (Returns (loadSnapshotsWithMessage m)) = Some (LoadSnapshots (currentRepoIndex m))"
  by (simp add: cmd_of_def loadSnapshotsWithMessage_def log_info_def Let_def)

lemma log_keeps_index [simp]:
  "currentRepoIndex (log_info a b m) = currentRepoIndex m"
  "currentRepoIndex (log_success a b m) = currentRepoIndex m"
  "currentRepoIndex (log_error a b m) = currentRepoIndex m"
  "currentRepoIndex (log_dimmed a b m) = currentRepoIndex m"
  "currentRepoIndex (log_warning a b m) = currentRepoIndex m"
  by (simp_all add: log_info_def log_success_def log_error_def log_dimmed_def log_warning_def)

lemma backup_summary_cmd:
  "cmd_of (Update lib m (BackupSummaryMsg summary err)) = Some (LoadSnapshots (currentRepoIndex m))"
  by (simp add: Update_def on_BackupSummary_def Let_def split: option.splits)

lemma forget_complete_cmd:
  "cmd_of (Update lib m (ForgetCompleteMsg err)) = Some (LoadSnapshots (currentRepoIndex m))"
  by (simp add: Update_def on_ForgetComplete_def Let_def split: option.splits)

lemma prune_complete_cmd:
  "cmd_of (Update lib m (PruneCompleteMsg err)) = Some LoadRepositories"
  by (simp add: Update_def on_PruneComplete_def Let_def cmd_of_def split: option.splits)

lemma restore_summary_cmd:
  "cmd_of (Update lib m (RestoreSummaryMsg summary err)) = Some NoCmd"
  by (simp add: Update_def on_RestoreSummary_def Let_def cmd_of_def split: option.splits)

lemma repositories_loaded_cmd:
  assumes "repos \<noteq> []" "0 \<le> currentRepoIndex m"
  shows "cmd_of (Update lib m (RepositoriesLoadedMsg repos))
         = Some (LoadSnapshots (currentRepoIndex m))"
proof (cases "currentRepoIndex m < int (length repos)")
  case True
  then have "index_at repos (currentRepoIndex m) = Some (repos ! nat (currentRepoIndex m))"
    using assms(2) by (simp add: index_at_def)
  then show ?thesis using True assms(1)
    by (simp add: Update_def on_RepositoriesLoaded_def Let_def log_success_def)
next
  case False
  then show ?thesis using assms(1)
    by (simp add: Update_def on_RepositoriesLoaded_def Let_def log_success_def)
qed

text \<open>
  C3 (as amended). Handling the completion message of a backup or of a forget, with or
  without an error, issues a snapshot-listing query for the current repository. Handling
  the completion message of a prune issues the repository-info query, and handling that
  query's result issues a snapshot-listing query when it holds at least one repository.
  Handling the completion message of a restore issues no follow-up action.
\<close>

theorem completion_follow_up:
  "cmd_of (Update lib m (BackupSummaryMsg bsummary err)) = Some (LoadSnapshots (currentRepoIndex m))
   \<and> cmd_of (Update lib m (ForgetCompleteMsg err)) = Some (LoadSnapshots (currentRepoIndex m))
   \<and> cmd_of (Update lib m (PruneCompleteMsg err)) = Some LoadRepositories
   \<and> (repos \<noteq> [] \<and> 0 \<le> currentRepoIndex m \<longrightarrow>
        cmd_of (Update lib m (RepositoriesLoadedMsg repos))
          = Some (LoadSnapshots (currentRepoIndex m)))
   \<and> cmd_of (Update lib m (RestoreSummaryMsg rsummary err)) = Some NoCmd"
  using backup_summary_cmd forget_complete_cmd prune_complete_cmd repositories_loaded_cmd
    restore_summary_cmd
  by blast

theorem completion_follow_up_witness:
  "cmd_of (Update \<lparr>textinput_Update = (\<lambda>key t. t), path_Dir = (\<lambda>p. p)\<rparr> (NewModel \<lparr>Repositories = []\<rparr>)
      (RepositoriesLoadedMsg
         [\<lparr>repo_Name = ''home'', repo_Path = ''/repo'', repo_LastBackup = 0, repo_Size = 1,
           repo_TotalFiles = 1, repo_SnapshotCount = 1, repo_Status = ''healthy''\<rparr>]))
   = Some (LoadSnapshots 0)
   \<and> cmd_of (Update \<lparr>textinput_Update = (\<lambda>key t. t), path_Dir = (\<lambda>p. p)\<rparr> (NewModel \<lparr>Repositories = []\<rparr>) (PruneCompleteMsg None))
   = Some LoadRepositories"
proof -
  let ?lib = "\<lparr>textinput_Update = (\<lambda>key t. t), path_Dir = (\<lambda>p. p)\<rparr>"
  let ?m = "NewModel \<lparr>Repositories = []\<rparr>"
  let ?repos = "[\<lparr>repo_Name = ''home'', repo_Path = ''/repo'', repo_LastBackup = 0,
      repo_Size = 1, repo_TotalFiles = 1, repo_SnapshotCount = 1, repo_Status = ''healthy''\<rparr>]"
  have i: "currentRepoIndex ?m = 0" by (simp add: NewModel_def)
  have h: "?repos \<noteq> [] \<and> 0 \<le> currentRepoIndex ?m" using i by simp
  note t = completion_follow_up [of ?lib ?m None None ?repos None]
  have a: "cmd_of (Update ?lib ?m (RepositoriesLoadedMsg ?repos))
      = Some (LoadSnapshots (currentRepoIndex ?m))"
    using t h by blast
  have b: "cmd_of (Update ?lib ?m (PruneCompleteMsg None)) = Some LoadRepositories"
    using t by blast
  show ?thesis using a b i by simp
qed

text \<open>
  The claim C3 as the specification states it fails for restore: the completion message of
  a successful restore is answered with no command at all.
\<close>

theorem restore_completion_no_refresh_counterexample:
  "cmd_of (Update \<lparr>textinput_Update = (\<lambda>key t. t), path_Dir = (\<lambda>p. p)\<rparr>
      ((NewModel \<lparr>Repositories = []\<rparr>)\<lparr>restoreInProgress := True\<rparr>)
      (RestoreSummaryMsg
         (Some \<lparr>rs_MessageType = ''summary'', rs_TotalFiles = 0, rs_TotalBytes = 0,
            rs_SecondsElapsed = 0\<rparr>) None))
   = Some NoCmd"
  by (rule restore_summary_cmd)

section \<open>Results about repository selection and snapshot results\<close>

lemma update_key_main: "main_view m \<Longrightarrow> update_key lib m key = key_main m key"
  by (simp add: update_key_def main_view_def split: option.splits)












lemma log_keeps_snapPanel [simp]:
  "snapPanel (log_info a b m) = snapPanel m"
  "snapPanel (log_success a b m) = snapPanel m"
  "snapPanel (log_error a b m) = snapPanel m"
  "snapPanel (log_dimmed a b m) = snapPanel m"
  "snapPanel (log_warning a b m) = snapPanel m"
  by (simp_all add: log_info_def log_success_def log_error_def log_dimmed_def log_warning_def)

lemma logSelectedSnapshot_snapPanel [simp]:
  "snapPanel (logSelectedSnapshot m) = snapPanel m"
  by (simp add: logSelectedSnapshot_def Let_def split: option.splits)



lemma logSelectedSnapshot_current [simp]:
  "currentRepoIndex (logSelectedSnapshot m) = currentRepoIndex m"
  by (simp add: logSelectedSnapshot_def Let_def split: option.splits)






section \<open>Results about starting a backup or a restore\<close>

lemma backup_request_rejected:
  "main_view m \<Longrightarrow> backupInProgress m \<Longrightarrow>
   Update lib m (KeyMsg ''b'')
     = Returns (log_warning ''Backup already in progress'' [] m, NoCmd)"
  by (simp add: Update_def update_key_main key_main_def)

lemma restore_request_rejected:
  "main_view m \<Longrightarrow> restoreInProgress m \<Longrightarrow>
   Update lib m (KeyMsg ''R'')
     = Returns (log_warning ''Restore already in progress'' [] m, NoCmd)"
  by (simp add: Update_def update_key_main key_main_def Let_def)

lemma log_warning_flags:
  "backupInProgress (log_warning a b m) = backupInProgress m
   \<and> currentBackupProgress (log_warning a b m) = currentBackupProgress m
   \<and> showBackupForm (log_warning a b m) = showBackupForm m
   \<and> restoreInProgress (log_warning a b m) = restoreInProgress m
   \<and> currentRestoreProgress (log_warning a b m) = currentRestoreProgress m
   \<and> showRestoreForm (log_warning a b m) = showRestoreForm m"
  by (simp add: log_warning_def)

lemma restore_accepted_during_backup:
  "main_view m \<Longrightarrow> backupInProgress m \<Longrightarrow> \<not> restoreInProgress m \<Longrightarrow>
   SnapshotPanel_GetSelected (snapPanel m) = Some snap \<Longrightarrow>
   \<exists>m'. Update lib m (KeyMsg ''R'') = Returns (m', NoCmd) \<and> showRestoreForm m'
      \<and> restoreForm m' \<noteq> None \<and> backupInProgress m' \<and> opsPanel m' = opsPanel m"
  by (simp add: Update_def update_key_main key_main_def Let_def)

text \<open>
  The restore form starts a restore on Enter whenever it is valid and a snapshot is
  selected; whether a restore is already running is not looked at.
\<close>

lemma restore_form_enter_starts:
  assumes "\<not> showHelp m" "\<not> showBackupForm m" "showRestoreForm m"
    "restoreForm m = Some form" "RestoreForm_IsValid form"
    "SnapshotPanel_GetSelected (snapPanel m) = Some snap"
    "index_at (Repositories (config m)) (currentRepoIndex m) = Some repoConfig"
  shows "cmd_of (Update lib m (KeyMsg ''enter''))
         = Some (ExecuteRestore repoConfig
                   \<lparr>ro_SnapshotID = snap_ID snap, ro_Target = GetTarget form,
                    ro_Include = GetInclude form\<rparr>)"
proof -
  have lt: "\<not> currentRepoIndex m \<ge> int (length (Repositories (config m)))"
    using assms(7) by (auto simp: index_at_def split: if_splits)
  show ?thesis using assms lt
    by (simp add: Update_def update_key_def key_restore_form_def executeRestore_def Let_def
        log_info_def cmd_of_def)
qed

text \<open>
  The key r of the file browser opens the restore form whenever some file is marked;
  whether a restore is already running is not looked at, and no warning is logged.
\<close>

lemma file_browser_restore_unguarded:
  assumes "\<not> showHelp m" "\<not> showBackupForm m" "\<not> showRestoreForm m"
    "\<not> filterInputActive m" "showFileBrowser m" "fileBrowser m = Some fb"
    "GetSelectedFiles fb \<noteq> []"
  shows "\<exists>m'. Update lib m (KeyMsg ''r'') = Returns (m', NoCmd) \<and> showRestoreForm m'
      \<and> restoreForm m' \<noteq> None \<and> restoreInProgress m' = restoreInProgress m"
  using assms
  by (simp add: Update_def update_key_def key_file_browser_def Let_def log_info_def)

text \<open>
  C2 (where the code departs from it). A restore is started from the restore form, and
  while it is still running (no summary message has come in) the user opens the file
  browser on the snapshot, marks a file, presses r, chooses the original location and
  presses Enter: the key r opens the restore form without looking at the in-progress
  flag, and a second restore session is started beside the first.
\<close>

theorem second_restore_from_file_browser:
  "cmds_of (run_msgs \<lparr>textinput_Update = (\<lambda>key t. t), path_Dir = (\<lambda>p. p)\<rparr>
     (NewModel \<lparr>Repositories = [\<lparr>cfg_Name = ''home'', cfg_Path = ''/repo'',
         cfg_PasswordCommand = [], cfg_PasswordFile = ''/pw'', cfg_Password = []\<rparr>]\<rparr>)
     [RepositoriesLoadedMsg [\<lparr>repo_Name = ''home'', repo_Path = ''/repo'', repo_LastBackup = 0,
         repo_Size = 1, repo_TotalFiles = 1, repo_SnapshotCount = 1, repo_Status = ''healthy''\<rparr>],
      SnapshotsLoadedMsg [\<lparr>snap_ID = ''abc123'', snap_Time = 0, snap_Hostname = ''web1'',
         snap_Username = ''u'', snap_Paths = [''/home''], snap_Tags = [],
         snap_ShortID = ''abc''\<rparr>] None 0 \<lparr>sl_RepoName = ''home'', sl_RepoPath = ''/repo''\<rparr>,
      KeyMsg ''R'', KeyMsg '' '', KeyMsg ''enter'',
      KeyMsg ''tab'', KeyMsg ''tab'', KeyMsg ''enter'',
      FilesLoadedMsg [\<lparr>node_MessageType = ''node'', node_Name = ''a'', node_Type = ''file'',
         node_Path = ''/home/a'', node_Size = 1, node_Selected = False\<rparr>] None,
      KeyMsg '' '', KeyMsg ''r'', KeyMsg '' '', KeyMsg ''enter''])
   = Some [LoadSnapshots 0, NoCmd, NoCmd, NoCmd,
      ExecuteRestore \<lparr>cfg_Name = ''home'', cfg_Path = ''/repo'',
         cfg_PasswordCommand = [], cfg_PasswordFile = ''/pw'', cfg_Password = []\<rparr>
        \<lparr>ro_SnapshotID = ''abc123'', ro_Target = [], ro_Include = []\<rparr>,
      NoCmd, NoCmd, LoadFiles 0, NoCmd, NoCmd, NoCmd, NoCmd,
      ExecuteRestore \<lparr>cfg_Name = ''home'', cfg_Path = ''/repo'',
         cfg_PasswordCommand = [], cfg_PasswordFile = ''/pw'', cfg_Password = []\<rparr>
        \<lparr>ro_SnapshotID = ''abc123'', ro_Target = [], ro_Include = [''/home/a'']\<rparr>]"
  by code_simp

end
